theory Spec2Isabelle
  imports Complex_Main "HOL-Library.Word"
begin

section \<open>Data model of the rasterization pipeline (rasterize.cu)\<close>

text \<open>
  Single-precision values of the source are modelled by real numbers: rounding is not
  represented, the control flow and the memory effects are. Device arrays are stores
  indexed by integers, so that an access outside the allocated range is visible as an
  access to another cell of the store, as it is on the device.
\<close>

datatype vec2 = Vec2 (x2: real) (y2: real)
datatype vec3 = Vec3 (x3: real) (y3: real) (z3: real)
datatype vec4 = Vec4 (x4: real) (y4: real) (z4: real) (w4: real)

definition vec2_add :: "vec2 \<Rightarrow> vec2 \<Rightarrow> vec2" where
  "vec2_add a b = Vec2 (x2 a + x2 b) (y2 a + y2 b)"

definition vec2_scale :: "real \<Rightarrow> vec2 \<Rightarrow> vec2" where
  "vec2_scale s a = Vec2 (s * x2 a) (s * y2 a)"

definition vec3_add :: "vec3 \<Rightarrow> vec3 \<Rightarrow> vec3" where
  "vec3_add a b = Vec3 (x3 a + x3 b) (y3 a + y3 b) (z3 a + z3 b)"

definition vec3_scale :: "real \<Rightarrow> vec3 \<Rightarrow> vec3" where
  "vec3_scale s a = Vec3 (s * x3 a) (s * y3 a) (s * z3 a)"

definition vec3_dot :: "vec3 \<Rightarrow> vec3 \<Rightarrow> real" where
  "vec3_dot a b = x3 a * x3 b + y3 a * y3 b + z3 a * z3 b"

definition clamp_real :: "real \<Rightarrow> real \<Rightarrow> real \<Rightarrow> real" where
  "clamp_real v lo hi = min (max v lo) hi"

definition vec3_clamp :: "vec3 \<Rightarrow> real \<Rightarrow> real \<Rightarrow> vec3" where
  "vec3_clamp a lo hi = Vec3 (clamp_real (x3 a) lo hi) (clamp_real (y3 a) lo hi) (clamp_real (z3 a) lo hi)"

definition vec3_normalize :: "vec3 \<Rightarrow> vec3" where
  "vec3_normalize a = vec3_scale (1 / sqrt (vec3_dot a a)) a"

text \<open>Conversion of a float to \<open>int\<close> in C truncates towards zero.\<close>

definition float_to_int :: "real \<Rightarrow> int" where
  "float_to_int r = (if 0 \<le> r then \<lfloor>r\<rfloor> else \<lceil>r\<rceil>)"

definition INT_MAX :: int where
  "INT_MAX = 2147483647"

type_synonym TextureData = "8 word"
type_synonym VertexIndex = "16 word"

text \<open>A device pointer to texture bytes: \<open>None\<close> is NULL, \<open>Some t\<close> gives the byte at each offset.\<close>

type_synonym texture_ptr = "(int \<Rightarrow> TextureData) option"

text \<open>
  The primitive modes of glTF, by the names of the \<open>TINYGLTF_MODE\<close> macros; any other
  value of the mode is \<open>TINYGLTF_MODE_OTHER\<close>.
\<close>

datatype tinygltf_mode =
    TINYGLTF_MODE_POINTS | TINYGLTF_MODE_LINE | TINYGLTF_MODE_LINE_LOOP
  | TINYGLTF_MODE_TRIANGLES | TINYGLTF_MODE_TRIANGLE_STRIP | TINYGLTF_MODE_TRIANGLE_FAN
  | TINYGLTF_MODE_OTHER int

datatype PrimitiveType = Point | Line | Triangle

fun primitiveType_int :: "PrimitiveType \<Rightarrow> int" where
  "primitiveType_int Point = 1"
| "primitiveType_int Line = 2"
| "primitiveType_int Triangle = 3"

text \<open>
  \<open>VertexOut\<close> and \<open>Fragment\<close> share the field names \<open>diffuseTexture\<close>, \<open>texWidth\<close>
  and \<open>texHeight\<close>, as in the source; they are written with the record's name in front.
\<close>

record VertexOut =
  vertexEyePos :: vec4
  vertexPerspPos :: vec4
  vertexNormal :: vec3
  vertexUV :: vec2
  diffuseTexture :: texture_ptr
  texWidth :: int
  texHeight :: int

text \<open>The array \<open>v[3]\<close> of a primitive is a store of vertex slots indexed by the slot number.\<close>

record Primitive =
  primitiveType :: PrimitiveType
  v :: "nat \<Rightarrow> VertexOut"
  cull :: bool

record Fragment =
  eyeNormal :: vec3
  UV :: vec2
  diffuseTexture :: texture_ptr
  texWidth :: int
  texHeight :: int

text \<open>
  The compile-time switches of the source (\<open>#define BACKFACE_CULLING\<close>, \<open>PERSP_CORRECT\<close>,
  \<open>BILINEAR\<close>, \<open>SAMPLES\<close>) are the fields of a configuration; \<open>source_config\<close> holds the
  values the file is compiled with.
\<close>

record config =
  BACKFACE_CULLING :: bool
  PERSP_CORRECT :: bool
  BILINEAR :: bool
  SAMPLES :: int

definition source_config :: config where
  "source_config = \<lparr>BACKFACE_CULLING = True, PERSP_CORRECT = True, BILINEAR = True, SAMPLES = 1\<rparr>"

definition SAMPLE_WEIGHT :: "config \<Rightarrow> real" where
  "SAMPLE_WEIGHT cfg = 1 / real_of_int (SAMPLES cfg * SAMPLES cfg)"

definition SAMPLE_JITTER :: "config \<Rightarrow> real" where
  "SAMPLE_JITTER cfg = 1 / real_of_int (SAMPLES cfg)"

section \<open>Shader (render)\<close>

definition inverse255 :: real where
  "inverse255 = 0.00392156863"

definition colorAtPoint :: "(int \<Rightarrow> TextureData) \<Rightarrow> int \<Rightarrow> vec3" where
  "colorAtPoint t index = vec3_scale inverse255
     (Vec3 (real (unat (t (index * 3)))) (real (unat (t (index * 3 + 1)))) (real (unat (t (index * 3 + 2)))))"

definition sample :: "vec2 \<Rightarrow> (int \<Rightarrow> TextureData) \<Rightarrow> int \<Rightarrow> int \<Rightarrow> vec3" where
  "sample uv tex tw th =
     (let uIndex = float_to_int (x2 uv * real_of_int tw);
          vIndex = float_to_int (y2 uv * real_of_int th);
          Index1D = uIndex + tw * vIndex
      in colorAtPoint tex Index1D)"

definition sampleBilinear :: "vec2 \<Rightarrow> (int \<Rightarrow> TextureData) \<Rightarrow> int \<Rightarrow> int \<Rightarrow> vec3" where
  "sampleBilinear uv tex tw th =
     (let uF0 = x2 uv * real_of_int tw;
          uIndex = float_to_int uF0;
          uFraction = uF0 - real_of_int uIndex;
          vF0 = y2 uv * real_of_int th;
          vIndex = float_to_int vF0;
          vFraction = vF0 - real_of_int vIndex;
          Index1D = uIndex + tw * vIndex
      in vec3_add
           (vec3_add
             (vec3_add
               (vec3_scale ((1 - uFraction) * (1 - vFraction)) (colorAtPoint tex Index1D))
               (vec3_scale (uFraction * (1 - vFraction))
                  (colorAtPoint tex (if uIndex + 1 < tw then Index1D + 1 else Index1D))))
             (vec3_scale ((1 - uFraction) * vFraction)
                (colorAtPoint tex (if vIndex + 1 < th then Index1D + tw else Index1D))))
           (vec3_scale (uFraction * vFraction)
              (colorAtPoint tex (if uIndex + 1 < tw \<and> vIndex + 1 < th then Index1D + tw + 1 else Index1D))))"

text \<open>
  One thread of the kernel \<open>render\<close>, for the pixel \<open>(x, y)\<close> given by its block and thread
  index (unsigned, hence natural numbers): it returns the frame buffer after the thread
  has run.
\<close>

definition render :: "config \<Rightarrow> int \<Rightarrow> int \<Rightarrow> (int \<Rightarrow> Fragment) \<Rightarrow> (int \<Rightarrow> vec3) \<Rightarrow> nat \<times> nat \<Rightarrow> (int \<Rightarrow> vec3)" where
  "render cfg w h fragmentBuffer framebuffer xy =
     (let x = int (fst xy); y = int (snd xy); index = x + (y * w) in
      if x < w \<and> y < h then
        (let f = fragmentBuffer index in
         if eyeNormal f = Vec3 0 0 0 then framebuffer(index := Vec3 0 0 0)
         else
           (let lightDir = Vec3 1 1 1;
                color = (case Fragment.diffuseTexture f of
                           None \<Rightarrow> Vec3 1 1 1
                         | Some tex \<Rightarrow>
                             if BILINEAR cfg then sampleBilinear (UV f) tex (Fragment.texWidth f) (Fragment.texHeight f)
                             else sample (UV f) tex (Fragment.texWidth f) (Fragment.texHeight f));
                lightValue = max (vec3_dot (eyeNormal (fragmentBuffer index)) lightDir) 0.4;
                diffuse = vec3_clamp (vec3_scale lightValue color) 0 1
            in framebuffer(index := vec3_add (framebuffer index) (vec3_scale (SAMPLE_WEIGHT cfg) diffuse))))
      else framebuffer)"

section \<open>Kernel launches and loops\<close>

text \<open>
  A kernel launch runs one thread body per thread index. The order in which the device
  runs the threads is not fixed: a launch is the thread body folded over a schedule, the
  list of thread indices in the order in which they take effect. A thread body is one
  step: interleavings inside the bodies of two threads are not represented.
\<close>

definition run_threads :: "('t \<Rightarrow> 's \<Rightarrow> 's) \<Rightarrow> 't list \<Rightarrow> 's \<Rightarrow> 's" where
  "run_threads body sched s = fold body sched s"

text \<open>
  The 2D launches of \<open>rasterize\<close> use blocks of 8 x 8 threads and
  \<open>((width - 1) / 8 + 1, (height - 1) / 8 + 1)\<close> blocks; the division is unsigned, since
  the block size is.
\<close>

definition blockCount2d :: "int \<Rightarrow> int \<Rightarrow> nat \<times> nat" where
  "blockCount2d w h =
     (nat ((((w - 1) mod 2 ^ 32) div 8 + 1) mod 2 ^ 32), nat ((((h - 1) mod 2 ^ 32) div 8 + 1) mod 2 ^ 32))"

definition grid2d :: "int \<Rightarrow> int \<Rightarrow> (nat \<times> nat) list" where
  "grid2d w h = List.product [0 ..< fst (blockCount2d w h) * 8] [0 ..< snd (blockCount2d w h) * 8]"

text \<open>
  The outcome of a loop body: the loop goes on, or the enclosing function has executed
  \<open>return\<close>.
\<close>

datatype 's flow = Continue 's | Return 's

fun flow_state :: "'s flow \<Rightarrow> 's" where
  "flow_state (Continue s) = s"
| "flow_state (Return s) = s"

text \<open>
  \<open>for (int i = i0; i < hi; i++) body\<close>, where the bound \<open>hi\<close> is a float, as the bounds
  of the bounding box are.
\<close>

function for_loop :: "int \<Rightarrow> real \<Rightarrow> (int \<Rightarrow> 's \<Rightarrow> 's flow) \<Rightarrow> 's \<Rightarrow> 's flow" where
  "for_loop i hi body s =
     (if real_of_int i < hi then
        (case body i s of
           Return s' \<Rightarrow> Return s'
         | Continue s' \<Rightarrow> for_loop (i + 1) hi body s')
      else Continue s)"
  by pat_completeness auto
termination
  by (relation "measure (\<lambda>(i, hi, body, s). nat (\<lceil>hi\<rceil> - i))") (auto simp: less_ceiling_iff)

declare for_loop.simps [simp del]

section \<open>Rasterizer (initDepth, generateFragments)\<close>

definition initDepth :: "int \<Rightarrow> int \<Rightarrow> nat \<times> nat \<Rightarrow> (int \<Rightarrow> int) \<Rightarrow> (int \<Rightarrow> int)" where
  "initDepth w h xy depth =
     (let x = int (fst xy); y = int (snd xy) in
      if x < w \<and> y < h then (let index = x + (y * w) in depth(index := INT_MAX))
      else depth)"

record AABB =
  aabb_min :: vec3
  aabb_max :: vec3

text \<open>
  The helpers of \<open>rasterizeTools.h\<close> are called by \<open>generateFragments\<close>, but the header is
  not part of the sources: they are parameters of the model, under their names.
\<close>

record raster_tools =
  getAABBForTriangle :: "vec3 list \<Rightarrow> int \<Rightarrow> int \<Rightarrow> AABB"
  calculateBarycentricCoordinate :: "vec3 list \<Rightarrow> vec2 \<Rightarrow> vec3"
  isBarycentricCoordInBounds :: "vec3 \<Rightarrow> bool"
  getZAtCoordinate :: "vec3 \<Rightarrow> vec3 list \<Rightarrow> real"

definition vec3_of_vec4 :: "vec4 \<Rightarrow> vec3" where
  "vec3_of_vec4 a = Vec3 (x4 a) (y4 a) (z4 a)"

definition interpolateBarycentric3 :: "vec3 \<Rightarrow> vec3 \<Rightarrow> vec3 \<Rightarrow> vec3 \<Rightarrow> vec3" where
  "interpolateBarycentric3 p0 p1 p2 coords =
     vec3_add (vec3_add (vec3_scale (x3 coords) p0) (vec3_scale (y3 coords) p1)) (vec3_scale (z3 coords) p2)"

definition interpolateBarycentric2 :: "vec2 \<Rightarrow> vec2 \<Rightarrow> vec2 \<Rightarrow> vec3 \<Rightarrow> vec2" where
  "interpolateBarycentric2 p0 p1 p2 coords =
     vec2_add (vec2_add (vec2_scale (x3 coords) p0) (vec2_scale (y3 coords) p1)) (vec2_scale (z3 coords) p2)"

definition interpolatePerspective :: "Primitive \<Rightarrow> vec3 \<Rightarrow> real \<Rightarrow> vec2" where
  "interpolatePerspective p coords pointDepth =
     vec2_scale pointDepth
       (vec2_add
          (vec2_add (vec2_scale (x3 coords) (vertexUV (v p 0))) (vec2_scale (y3 coords) (vertexUV (v p 1))))
          (vec2_scale (z3 coords) (vertexUV (v p 2))))"

definition atomicMin :: "(int \<Rightarrow> int) \<Rightarrow> int \<Rightarrow> int \<Rightarrow> (int \<Rightarrow> int)" where
  "atomicMin depthBuffer index val = depthBuffer(index := min (depthBuffer index) val)"

definition triangle_of :: "Primitive \<Rightarrow> vec3 list" where
  "triangle_of p =
     [vec3_of_vec4 (vertexPerspPos (v p 0)), vec3_of_vec4 (vertexPerspPos (v p 1)),
      vec3_of_vec4 (vertexPerspPos (v p 2))]"

text \<open>
  The arithmetic of the pipeline is modelled on the reals. The depth test of
  \<open>generateFragments\<close> is kept apart, because its outcome depends on single precision:
  \<open>depth * INT_MAX\<close> is a float product, in which \<open>INT_MAX\<close> is first converted to float;
  \<open>(int)\<close> converts that float to an int; and in \<open>depth * INT_MAX == depthBuffer[fragIndex]\<close>
  the entry of the depth buffer is converted to float before the comparison. The three
  operations are parameters of the model, and every property below holds for all of them.
\<close>

record float_ops =
  depth_times_INT_MAX :: "real \<Rightarrow> real"
  float_as_int :: "real \<Rightarrow> int"
  int_as_float :: "int \<Rightarrow> real"

text \<open>
  The body of the two nested loops of \<open>generateFragments\<close>, for the pixel \<open>(x, y)\<close>, on
  the pair of the fragment buffer and the depth buffer.
\<close>

definition fragment_pixel ::
  "float_ops \<Rightarrow> raster_tools \<Rightarrow> config \<Rightarrow> Primitive \<Rightarrow> int \<Rightarrow> int \<Rightarrow> vec2 \<Rightarrow> int \<Rightarrow> int \<Rightarrow>
   (int \<Rightarrow> Fragment) \<times> (int \<Rightarrow> int) \<Rightarrow> ((int \<Rightarrow> Fragment) \<times> (int \<Rightarrow> int)) flow" where
  "fragment_pixel F T cfg p width height sampleOffset x y bufs =
     (let fragmentBuffer = fst bufs; depthBuffer = snd bufs;
          p0 = v p 0; p1 = v p 1; p2 = v p 2;
          triangle = triangle_of p;
          barycentricCoord = calculateBarycentricCoordinate T triangle
            (Vec2 (real_of_int x + x2 sampleOffset) (real_of_int y + y2 sampleOffset))
      in if isBarycentricCoordInBounds T barycentricCoord then
           (let fragIndex = y * width + x in
            if fragIndex > width * height then Return bufs
            else
              (let depth = 1 / getZAtCoordinate T barycentricCoord triangle;
                   depthBuffer' = atomicMin depthBuffer fragIndex (float_as_int F (depth_times_INT_MAX F depth));
                   eyeNormal = interpolateBarycentric3 (vertexNormal p0) (vertexNormal p1) (vertexNormal p2) barycentricCoord
               in if depth_times_INT_MAX F depth = int_as_float F (depthBuffer' fragIndex) then
                    Continue (fragmentBuffer(fragIndex :=
                       \<lparr>eyeNormal = eyeNormal,
                        UV = (if PERSP_CORRECT cfg then interpolatePerspective p barycentricCoord depth
                              else interpolateBarycentric2 (vertexUV p0) (vertexUV p1) (vertexUV p2) barycentricCoord),
                        Fragment.diffuseTexture = VertexOut.diffuseTexture p0,
                        Fragment.texWidth = VertexOut.texWidth p0,
                        Fragment.texHeight = VertexOut.texHeight p0\<rparr>), depthBuffer')
                  else Continue (fragmentBuffer, depthBuffer')))
         else Continue bufs)"

text \<open>The inner loop of \<open>generateFragments\<close>, over the pixels of the column \<open>x\<close>.\<close>

definition column_loop ::
  "float_ops \<Rightarrow> raster_tools \<Rightarrow> config \<Rightarrow> Primitive \<Rightarrow> int \<Rightarrow> int \<Rightarrow> vec2 \<Rightarrow> AABB \<Rightarrow> int \<Rightarrow>
   (int \<Rightarrow> Fragment) \<times> (int \<Rightarrow> int) \<Rightarrow> ((int \<Rightarrow> Fragment) \<times> (int \<Rightarrow> int)) flow" where
  "column_loop F T cfg p width height sampleOffset triBounds x =
     for_loop (float_to_int (y3 (aabb_min triBounds))) (y3 (aabb_max triBounds))
       (\<lambda>y. fragment_pixel F T cfg p width height sampleOffset x y)"

definition generateFragments ::
  "float_ops \<Rightarrow> raster_tools \<Rightarrow> config \<Rightarrow> int \<Rightarrow> (int \<Rightarrow> Primitive) \<Rightarrow> int \<Rightarrow> int \<Rightarrow> vec2 \<Rightarrow> nat \<Rightarrow>
   (int \<Rightarrow> Fragment) \<times> (int \<Rightarrow> int) \<Rightarrow> (int \<Rightarrow> Fragment) \<times> (int \<Rightarrow> int)" where
  "generateFragments F T cfg numPrimitives primitiveBuffer width height sampleOffset primIdx bufs =
     (if int primIdx \<ge> numPrimitives then bufs
      else
        (let p = primitiveBuffer (int primIdx);
             triBounds = getAABBForTriangle T (triangle_of p) width height
         in flow_state
              (for_loop (float_to_int (x3 (aabb_min triBounds))) (x3 (aabb_max triBounds))
                 (column_loop F T cfg p width height sampleOffset triBounds) bufs)))"

text \<open>
  The parts of \<open>fragment_pixel\<close> by name, for the statements below: the coverage test, the
  float \<open>depth * INT_MAX\<close>, the equality test after the atomic minimum, and the fragment
  that is stored when the test succeeds.
\<close>

definition new_Fragment :: "raster_tools \<Rightarrow> config \<Rightarrow> Primitive \<Rightarrow> vec2 \<Rightarrow> int \<Rightarrow> int \<Rightarrow> Fragment" where
  "new_Fragment T cfg p sampleOffset x y =
     (let triangle = triangle_of p;
          barycentricCoord = calculateBarycentricCoordinate T triangle
            (Vec2 (real_of_int x + x2 sampleOffset) (real_of_int y + y2 sampleOffset));
          depth = 1 / getZAtCoordinate T barycentricCoord triangle
      in \<lparr>eyeNormal = interpolateBarycentric3 (vertexNormal (v p 0)) (vertexNormal (v p 1)) (vertexNormal (v p 2))
                         barycentricCoord,
          UV = (if PERSP_CORRECT cfg then interpolatePerspective p barycentricCoord depth
                else interpolateBarycentric2 (vertexUV (v p 0)) (vertexUV (v p 1)) (vertexUV (v p 2)) barycentricCoord),
          Fragment.diffuseTexture = VertexOut.diffuseTexture (v p 0),
          Fragment.texWidth = VertexOut.texWidth (v p 0),
          Fragment.texHeight = VertexOut.texHeight (v p 0)\<rparr>)"

definition covers :: "raster_tools \<Rightarrow> Primitive \<Rightarrow> vec2 \<Rightarrow> int \<Rightarrow> int \<Rightarrow> bool" where
  "covers T p sampleOffset x y =
     isBarycentricCoordInBounds T (calculateBarycentricCoordinate T (triangle_of p)
        (Vec2 (real_of_int x + x2 sampleOffset) (real_of_int y + y2 sampleOffset)))"

definition encoded_depth :: "float_ops \<Rightarrow> raster_tools \<Rightarrow> Primitive \<Rightarrow> vec2 \<Rightarrow> int \<Rightarrow> int \<Rightarrow> real" where
  "encoded_depth F T p sampleOffset x y =
     depth_times_INT_MAX F
       (1 / getZAtCoordinate T (calculateBarycentricCoordinate T (triangle_of p)
              (Vec2 (real_of_int x + x2 sampleOffset) (real_of_int y + y2 sampleOffset))) (triangle_of p))"

text \<open>
  The depth test of the pixel \<open>(x, y)\<close> on the depth buffer that the worker finds there:
  the primitive covers the pixel, the guard lets the index pass, and after the atomic
  minimum the float \<open>depth * INT_MAX\<close> equals the entry of the pixel, converted to float.
\<close>

definition wins_depth_test ::
  "float_ops \<Rightarrow> raster_tools \<Rightarrow> Primitive \<Rightarrow> int \<Rightarrow> int \<Rightarrow> vec2 \<Rightarrow> (int \<Rightarrow> int) \<Rightarrow> int \<Rightarrow> int \<Rightarrow> bool" where
  "wins_depth_test F T p width height sampleOffset depthBuffer x y =
     (covers T p sampleOffset x y \<and> y * width + x \<le> width * height
      \<and> encoded_depth F T p sampleOffset x y
          = int_as_float F (atomicMin depthBuffer (y * width + x)
                              (float_as_int F (encoded_depth F T p sampleOffset x y)) (y * width + x)))"

text \<open>
  The pixels that the two loops of a worker visit for the bounding box \<open>triBounds\<close>, and the
  buffers that a worker started on \<open>bufs\<close> finds when it arrives at the pixel \<open>(x, y)\<close>:
  after the columns before \<open>x\<close> and the pixels of the column \<open>x\<close> before \<open>y\<close>. The outcome
  is \<open>Return\<close> when the worker has returned before it arrives there.
\<close>

definition in_box :: "AABB \<Rightarrow> int \<Rightarrow> int \<Rightarrow> bool" where
  "in_box triBounds x y =
     (float_to_int (x3 (aabb_min triBounds)) \<le> x \<and> real_of_int x < x3 (aabb_max triBounds)
      \<and> float_to_int (y3 (aabb_min triBounds)) \<le> y \<and> real_of_int y < y3 (aabb_max triBounds))"

definition state_at_pixel ::
  "float_ops \<Rightarrow> raster_tools \<Rightarrow> config \<Rightarrow> Primitive \<Rightarrow> int \<Rightarrow> int \<Rightarrow> vec2 \<Rightarrow> AABB \<Rightarrow> int \<Rightarrow> int \<Rightarrow>
   (int \<Rightarrow> Fragment) \<times> (int \<Rightarrow> int) \<Rightarrow> ((int \<Rightarrow> Fragment) \<times> (int \<Rightarrow> int)) flow" where
  "state_at_pixel F T cfg p width height sampleOffset triBounds x y bufs =
     (case for_loop (float_to_int (x3 (aabb_min triBounds))) (real_of_int x)
             (column_loop F T cfg p width height sampleOffset triBounds) bufs of
        Return s' \<Rightarrow> Return s'
      | Continue s' \<Rightarrow>
          for_loop (float_to_int (y3 (aabb_min triBounds))) (real_of_int y)
            (\<lambda>y'. fragment_pixel F T cfg p width height sampleOffset x y') s')"





text \<open>\<open>cudaMemset(dev_fragmentBuffer, 0, width * height * sizeof(Fragment))\<close>: all bytes zero.\<close>

definition zero_Fragment :: Fragment where
  "zero_Fragment = \<lparr>eyeNormal = Vec3 0 0 0, UV = Vec2 0 0, Fragment.diffuseTexture = None,
                    Fragment.texWidth = 0, Fragment.texHeight = 0\<rparr>"

definition memset_fragmentBuffer :: "int \<Rightarrow> int \<Rightarrow> (int \<Rightarrow> Fragment) \<Rightarrow> (int \<Rightarrow> Fragment)" where
  "memset_fragmentBuffer w h fragmentBuffer =
     (\<lambda>i. if 0 \<le> i \<and> i < w * h then zero_Fragment else fragmentBuffer i)"

text \<open>
  One iteration of the sample loop of \<open>rasterize\<close>: reset of the fragment buffer, launch of
  \<open>initDepth\<close>, of \<open>generateFragments\<close> and of \<open>render\<close>. The state is the triple of the
  fragment buffer, the depth buffer and the frame buffer; \<open>sched2\<close>, \<open>schedP\<close> and \<open>schedR\<close> are the
  schedules of the three launches.
\<close>

definition raster_stage ::
  "float_ops \<Rightarrow> raster_tools \<Rightarrow> config \<Rightarrow> int \<Rightarrow> (int \<Rightarrow> Primitive) \<Rightarrow> int \<Rightarrow> int \<Rightarrow> vec2 \<Rightarrow>
   (nat \<times> nat) list \<Rightarrow> nat list \<Rightarrow> (int \<Rightarrow> Fragment) \<times> (int \<Rightarrow> int) \<Rightarrow> (int \<Rightarrow> Fragment) \<times> (int \<Rightarrow> int)" where
  "raster_stage F T cfg frontPrims dev_primitives w h sampleOffset sched2 schedP bufs =
     (let fragmentBuffer = memset_fragmentBuffer w h (fst bufs);
          depth = run_threads (initDepth w h) sched2 (snd bufs)
      in run_threads (generateFragments F T cfg frontPrims dev_primitives w h sampleOffset) schedP
           (fragmentBuffer, depth))"

definition sample_pass ::
  "float_ops \<Rightarrow> raster_tools \<Rightarrow> config \<Rightarrow> int \<Rightarrow> (int \<Rightarrow> Primitive) \<Rightarrow> int \<Rightarrow> int \<Rightarrow> vec2 \<Rightarrow>
   (nat \<times> nat) list \<Rightarrow> nat list \<Rightarrow> (nat \<times> nat) list \<Rightarrow>
   (int \<Rightarrow> Fragment) \<times> (int \<Rightarrow> int) \<times> (int \<Rightarrow> vec3) \<Rightarrow> (int \<Rightarrow> Fragment) \<times> (int \<Rightarrow> int) \<times> (int \<Rightarrow> vec3)" where
  "sample_pass F T cfg frontPrims dev_primitives w h sampleOffset sched2 schedP schedR st =
     (let bufs = raster_stage F T cfg frontPrims dev_primitives w h sampleOffset sched2 schedP
                   (fst st, fst (snd st));
          framebuffer = run_threads (\<lambda>xy fb. render cfg w h (fst bufs) fb xy) schedR (snd (snd st))
      in (fst bufs, snd bufs, framebuffer))"

text \<open>
  The sample loop of \<open>rasterize\<close>: the offsets \<open>(i * SAMPLE_JITTER, j * SAMPLE_JITTER)\<close> for
  \<open>i\<close> and \<open>j\<close> below \<open>SAMPLES\<close>, and the passes run one after the other, each with its offset
  and the schedules of its three launches.
\<close>

definition sample_offsets :: "config \<Rightarrow> vec2 list" where
  "sample_offsets cfg =
     concat (map (\<lambda>i. map (\<lambda>j. Vec2 (real i * SAMPLE_JITTER cfg) (real j * SAMPLE_JITTER cfg))
                          [0 ..< nat (SAMPLES cfg)])
               [0 ..< nat (SAMPLES cfg)])"

definition sample_loop ::
  "float_ops \<Rightarrow> raster_tools \<Rightarrow> config \<Rightarrow> int \<Rightarrow> (int \<Rightarrow> Primitive) \<Rightarrow> int \<Rightarrow> int \<Rightarrow>
   (vec2 \<times> (nat \<times> nat) list \<times> nat list \<times> (nat \<times> nat) list) list \<Rightarrow>
   (int \<Rightarrow> Fragment) \<times> (int \<Rightarrow> int) \<times> (int \<Rightarrow> vec3) \<Rightarrow> (int \<Rightarrow> Fragment) \<times> (int \<Rightarrow> int) \<times> (int \<Rightarrow> vec3)" where
  "sample_loop F T cfg frontPrims dev_primitives w h passes st =
     fold (\<lambda>pass. sample_pass F T cfg frontPrims dev_primitives w h (fst pass) (fst (snd pass))
                     (fst (snd (snd pass))) (snd (snd (snd pass))))
       passes st"

section \<open>Vertex transform and primitive assembly\<close>

text \<open>A \<open>glm::mat4\<close> is stored by columns; \<open>M * v\<close> is the combination of the columns by \<open>v\<close>.\<close>

datatype mat4 = Mat4 vec4 vec4 vec4 vec4
datatype mat3 = Mat3 vec3 vec3 vec3

definition vec4_add :: "vec4 \<Rightarrow> vec4 \<Rightarrow> vec4" where
  "vec4_add a b = Vec4 (x4 a + x4 b) (y4 a + y4 b) (z4 a + z4 b) (w4 a + w4 b)"

definition vec4_scale :: "real \<Rightarrow> vec4 \<Rightarrow> vec4" where
  "vec4_scale s a = Vec4 (s * x4 a) (s * y4 a) (s * z4 a) (s * w4 a)"

definition vec4_div :: "vec4 \<Rightarrow> real \<Rightarrow> vec4" where
  "vec4_div a s = Vec4 (x4 a / s) (y4 a / s) (z4 a / s) (w4 a / s)"

fun mat4_mul :: "mat4 \<Rightarrow> vec4 \<Rightarrow> vec4" where
  "mat4_mul (Mat4 c0 c1 c2 c3) a =
     vec4_add (vec4_add (vec4_add (vec4_scale (x4 a) c0) (vec4_scale (y4 a) c1)) (vec4_scale (z4 a) c2))
       (vec4_scale (w4 a) c3)"

fun mat3_mul :: "mat3 \<Rightarrow> vec3 \<Rightarrow> vec3" where
  "mat3_mul (Mat3 c0 c1 c2) a =
     vec3_add (vec3_add (vec3_scale (x3 a) c0) (vec3_scale (y3 a) c1)) (vec3_scale (z3 a) c2)"

text \<open>
  The device arrays a \<open>PrimitiveDevBufPointers\<close> points to are stores; the array
  \<open>dev_verticesOut\<close>, which the vertex kernel writes, is the field's value after the write.
\<close>

record PrimitiveDevBufPointers =
  primitiveMode :: tinygltf_mode
  numPrimitives :: int
  numIndices :: int
  numVertices :: int
  primitiveType :: PrimitiveType
  dev_indices :: "int \<Rightarrow> VertexIndex"
  dev_position :: "int \<Rightarrow> vec3"
  dev_normal :: "int \<Rightarrow> vec3"
  dev_texcoord0 :: "int \<Rightarrow> vec2"
  dev_diffuseTex :: texture_ptr
  diffuseTexWidth :: int
  diffuseTexHeight :: int
  dev_verticesOut :: "int \<Rightarrow> VertexOut"

text \<open>
  One thread of \<open>_vertexTransformAndAssembly\<close>, for the vertex \<open>vid\<close>: the array
  \<open>dev_verticesOut\<close> after the thread has run.
\<close>

definition vertexTransformAndAssembly ::
  "config \<Rightarrow> int \<Rightarrow> PrimitiveDevBufPointers \<Rightarrow> mat4 \<Rightarrow> mat4 \<Rightarrow> mat3 \<Rightarrow> int \<Rightarrow> int \<Rightarrow> nat \<Rightarrow>
   (int \<Rightarrow> VertexOut)" where
  "vertexTransformAndAssembly cfg nVertices primitive MVP MV MV_normal width height vid =
     (if int vid < nVertices then
        (let pos = dev_position primitive (int vid);
             world = Vec4 (x3 pos) (y3 pos) (z3 pos) 1;
             clip0 = mat4_mul MVP world;
             clip1 = vec4_div clip0 (w4 clip0);
             clip = Vec4 ((1 - x4 clip1) * real_of_int width / 2) ((1 - y4 clip1) * real_of_int height / 2)
                      (z4 clip1) (w4 clip1)
         in (dev_verticesOut primitive)(int vid :=
              \<lparr>vertexEyePos = mat4_mul MV world,
               vertexPerspPos = clip,
               vertexNormal = vec3_normalize (mat3_mul MV_normal (dev_normal primitive (int vid))),
               vertexUV = (if PERSP_CORRECT cfg then vec2_scale (1 / z4 clip) (dev_texcoord0 primitive (int vid))
                           else dev_texcoord0 primitive (int vid)),
               VertexOut.diffuseTexture = dev_diffuseTex primitive,
               VertexOut.texWidth = diffuseTexWidth primitive,
               VertexOut.texHeight = diffuseTexHeight primitive\<rparr>))
      else dev_verticesOut primitive)"

text \<open>
  One thread of \<open>_primitiveAssembly\<close>, for the index position \<open>iid\<close>: the primitive array
  after the thread has run. The thread index is not negative, so the division and the
  remainder of C are \<open>div\<close> and \<open>mod\<close>.
\<close>

definition primitiveAssembly ::
  "int \<Rightarrow> int \<Rightarrow> PrimitiveDevBufPointers \<Rightarrow> nat \<Rightarrow> (int \<Rightarrow> Primitive) \<Rightarrow> (int \<Rightarrow> Primitive)" where
  "primitiveAssembly nIndices curPrimitiveBeginId primitive iid dev_primitives =
     (if int iid < nIndices then
        (let pid = int iid div primitiveType_int (PrimitiveDevBufPointers.primitiveType primitive)
                     + curPrimitiveBeginId;
             vtx = dev_verticesOut primitive (uint (dev_indices primitive (int iid)));
             slot = nat (int iid mod primitiveType_int (PrimitiveDevBufPointers.primitiveType primitive));
             prim = dev_primitives pid
         in dev_primitives(pid := prim\<lparr>v := (v prim)(slot := vtx), cull := z3 (vertexNormal vtx) < 0\<rparr>))
      else dev_primitives)"

text \<open>
  The perspective-correct value of the testable property of the specification: the UV
  obtained by interpolating UV/z linearly, then dividing by the interpolated 1/z. It is
  written from the specification, for comparison with \<open>interpolatePerspective\<close>.
\<close>

definition spec_perspective_uv :: "vec3 \<Rightarrow> real \<Rightarrow> real \<Rightarrow> real \<Rightarrow> vec2 \<Rightarrow> vec2 \<Rightarrow> vec2 \<Rightarrow> vec2" where
  "spec_perspective_uv coords z0 z1 z2 uv0 uv1 uv2 =
     Vec2 ((x3 coords * (x2 uv0 / z0) + y3 coords * (x2 uv1 / z1) + z3 coords * (x2 uv2 / z2))
             / (x3 coords * (1 / z0) + y3 coords * (1 / z1) + z3 coords * (1 / z2)))
          ((x3 coords * (y2 uv0 / z0) + y3 coords * (y2 uv1 / z1) + z3 coords * (y2 uv2 / z2))
             / (x3 coords * (1 / z0) + y3 coords * (1 / z1) + z3 coords * (1 / z2)))"

text \<open>
  The depth of the specification at a covered pixel: the reciprocal of the
  barycentric-interpolated reciprocal depth. It is written from the specification.
\<close>

definition spec_depth :: "vec3 \<Rightarrow> real \<Rightarrow> real \<Rightarrow> real \<Rightarrow> real" where
  "spec_depth coords z0 z1 z2 = 1 / (x3 coords * (1 / z0) + y3 coords * (1 / z1) + z3 coords * (1 / z2))"

section \<open>Culler\<close>

definition toCull :: "Primitive \<Rightarrow> bool" where
  "toCull p = cull p"

text \<open>
  Modelled from the spec: \<open>thrust::remove_if\<close> is library code and not part of the
  sources. The specification's Culler is a stable partition (stream compaction) that
  returns the survivor count; it is modelled by the sequential in-place compaction of
  the range \<open>[0, n)\<close>: the element at the read position \<open>i\<close> is moved to the write position
  \<open>j\<close> unless the predicate holds for it; the result is the array and the new end.
\<close>

function remove_if_loop :: "('a \<Rightarrow> bool) \<Rightarrow> nat \<Rightarrow> nat \<Rightarrow> nat \<Rightarrow> (int \<Rightarrow> 'a) \<Rightarrow> (int \<Rightarrow> 'a) \<times> nat" where
  "remove_if_loop pred n i j a =
     (if i < n then
        (if pred (a (int i)) then remove_if_loop pred n (Suc i) j a
         else remove_if_loop pred n (Suc i) (Suc j) (a(int j := a (int i))))
      else (a, j))"
  by pat_completeness auto
termination
  by (relation "measure (\<lambda>(pred, n, i, j, a). n - i)") auto

declare remove_if_loop.simps [simp del]

definition remove_if :: "('a \<Rightarrow> bool) \<Rightarrow> (int \<Rightarrow> 'a) \<Rightarrow> int \<Rightarrow> (int \<Rightarrow> 'a) \<times> nat" where
  "remove_if pred a n = remove_if_loop pred (nat n) 0 0 a"

text \<open>
  The culling step of \<open>rasterize\<close>: the primitive array and \<open>frontPrims\<close>, the number of
  primitives handed to the rasterizer.
\<close>

definition cull_stage :: "config \<Rightarrow> (int \<Rightarrow> Primitive) \<Rightarrow> int \<Rightarrow> (int \<Rightarrow> Primitive) \<times> int" where
  "cull_stage cfg dev_primitives totalNumPrimitives =
     (if BACKFACE_CULLING cfg then
        (let r = remove_if toCull dev_primitives totalNumPrimitives in (fst r, int (snd r)))
      else (dev_primitives, totalNumPrimitives))"

section \<open>Scene buffer setup (rasterizeSetBuffers)\<close>

text \<open>
  The scene is the part of a \<open>tinygltf::Scene\<close> that \<open>rasterizeSetBuffers\<close> reads. The
  bytes of the buffers, the copies of \<open>_deviceBufferCopy\<close> and the node matrices are not
  represented: a device buffer is a block of the device heap, named after what it was
  allocated for. The calls of the CUDA runtime are taken to succeed. The traversal of
  the node hierarchy is an input: the nodes reached, in the order of the node map, each
  with the names of its meshes.
\<close>

record tinygltf_Accessor =
  bufferView :: string
  count :: int

record tinygltf_BufferView =
  buffer :: string
  target :: int

record tinygltf_Primitive =
  indices :: string
  mode :: tinygltf_mode
  material :: string
  attributes :: "(string \<times> string) list"

record tinygltf_Mesh =
  name :: string
  primitives :: "tinygltf_Primitive list"

record tinygltf_Image =
  image_width :: int
  image_height :: int
  image_size :: nat

record tinygltf_Scene =
  bufferViews :: "(string \<times> tinygltf_BufferView) list"
  buffers :: "string \<rightharpoonup> nat"
  accessors :: "string \<rightharpoonup> tinygltf_Accessor"
  meshes :: "string \<rightharpoonup> tinygltf_Mesh"
  materials :: "string \<rightharpoonup> string option"
  textures :: "string \<rightharpoonup> string"
  images :: "string \<rightharpoonup> tinygltf_Image"

text \<open>
  The ways the host code can fail: \<open>at\<close> of a map or a vector on a missing key throws
  \<open>std::out_of_range\<close>; an attribute other than POSITION, NORMAL and TEXCOORD_0 leaves
  \<open>dev_attribute\<close> NULL, which is then dereferenced.
\<close>

datatype setup_error = OutOfRange | NullPointer

definition at_key :: "('k \<rightharpoonup> 'v) \<Rightarrow> 'k \<Rightarrow> setup_error + 'v" where
  "at_key m k = (case m k of None \<Rightarrow> Inl OutOfRange | Some x \<Rightarrow> Inr x)"

definition bind_err :: "setup_error + 'a \<Rightarrow> ('a \<Rightarrow> setup_error + 'b) \<Rightarrow> setup_error + 'b" where
  "bind_err r f = (case r of Inl e \<Rightarrow> Inl e | Inr x \<Rightarrow> f x)"

datatype device_block =
    BufferViewBlock string | IndexBlock | AttributeBlock string | VertexOutBlock
  | TextureBlock | PrimitivesBlock

text \<open>
  The fields of a \<open>PrimitiveDevBufPointers\<close> that the setup computes, without the device
  pointers.
\<close>

record PrimitiveDevBufInfo =
  info_primitiveMode :: tinygltf_mode
  info_numPrimitives :: int
  info_numIndices :: int
  info_numVertices :: int
  info_primitiveType :: PrimitiveType
  info_hasDiffuseTex :: bool
  info_diffuseTexWidth :: int
  info_diffuseTexHeight :: int

text \<open>
  The globals that the setup changes, and the device heap: \<open>dev_primitives_cells\<close> is the
  number of cells allocated for \<open>dev_primitives\<close>, \<open>None\<close> while the pointer is NULL.
\<close>

record setup_state =
  totalNumPrimitives :: int
  mesh2PrimitivesMap :: "string \<rightharpoonup> PrimitiveDevBufInfo list"
  dev_primitives_cells :: "int option"
  device_heap :: "device_block list"

text \<open>Step 1: each buffer view with a nonzero target is copied to a block of its own.\<close>

fun copy_bufferViews ::
  "tinygltf_Scene \<Rightarrow> (string \<times> tinygltf_BufferView) list \<Rightarrow>
   (string \<times> device_block) list \<times> device_block list \<Rightarrow>
   setup_error + ((string \<times> device_block) list \<times> device_block list)" where
  "copy_bufferViews scene [] acc = Inr acc"
| "copy_bufferViews scene ((key, view) # rest) (bufferViewDevPointers, heap) =
     (if target view = 0 then copy_bufferViews scene rest (bufferViewDevPointers, heap)
      else
        bind_err (at_key (buffers scene) (buffer view)) (\<lambda>buf.
          copy_bufferViews scene rest
            (if map_of bufferViewDevPointers key = None
             then bufferViewDevPointers @ [(key, BufferViewBlock key)] else bufferViewDevPointers,
             heap @ [BufferViewBlock key])))"

text \<open>The division of C truncates towards zero.\<close>

definition c_div :: "int \<Rightarrow> int \<Rightarrow> int" where
  "c_div a b = sgn a * sgn b * (\<bar>a\<bar> div \<bar>b\<bar>)"

text \<open>
  The switch on \<open>primitive.mode\<close>. Its default branch assigns nothing: the two locals
  keep the values \<open>uninit\<close> they happen to hold.
\<close>

fun switch_mode :: "PrimitiveType \<times> int \<Rightarrow> tinygltf_mode \<Rightarrow> int \<Rightarrow> PrimitiveType \<times> int" where
  "switch_mode uninit TINYGLTF_MODE_TRIANGLES nIndices = (Triangle, c_div nIndices 3)"
| "switch_mode uninit TINYGLTF_MODE_TRIANGLE_STRIP nIndices = (Triangle, nIndices - 2)"
| "switch_mode uninit TINYGLTF_MODE_TRIANGLE_FAN nIndices = (Triangle, nIndices - 2)"
| "switch_mode uninit TINYGLTF_MODE_LINE nIndices = (Line, c_div nIndices 2)"
| "switch_mode uninit TINYGLTF_MODE_LINE_LOOP nIndices = (Line, nIndices + 1)"
| "switch_mode uninit TINYGLTF_MODE_POINTS nIndices = (Point, nIndices)"
| "switch_mode uninit (TINYGLTF_MODE_OTHER m) nIndices = uninit"

text \<open>The loop over the attributes of a primitive: the vertex count and the heap.\<close>

fun attributes_loop ::
  "tinygltf_Scene \<Rightarrow> (string \<times> device_block) list \<Rightarrow> (string \<times> string) list \<Rightarrow>
   int \<times> device_block list \<Rightarrow> setup_error + (int \<times> device_block list)" where
  "attributes_loop scene bufferViewDevPointers [] acc = Inr acc"
| "attributes_loop scene bufferViewDevPointers ((attribute, accessorName) # rest) (nVertices, heap) =
     bind_err (at_key (accessors scene) accessorName) (\<lambda>accessor.
     bind_err (at_key (map_of (bufferViews scene)) (bufferView accessor)) (\<lambda>view.
     bind_err (at_key (map_of bufferViewDevPointers) (bufferView accessor)) (\<lambda>dev_bufferView.
       if attribute = ''POSITION'' \<or> attribute = ''NORMAL'' \<or> attribute = ''TEXCOORD_0''
       then attributes_loop scene bufferViewDevPointers rest (count accessor, heap @ [AttributeBlock attribute])
       else Inl NullPointer)))"

text \<open>The diffuse texture of the material: whether there is one, its size, and the heap.\<close>

definition load_material ::
  "tinygltf_Scene \<Rightarrow> string \<Rightarrow> device_block list \<Rightarrow> setup_error + (bool \<times> int \<times> int \<times> device_block list)" where
  "load_material scene materialName heap =
     (if materialName = [] then Inr (False, 0, 0, heap)
      else
        bind_err (at_key (materials scene) materialName) (\<lambda>mat.
          case mat of
            None \<Rightarrow> Inr (False, 0, 0, heap)
          | Some diffuseTexName \<Rightarrow>
              (case textures scene diffuseTexName of
                 None \<Rightarrow> Inr (False, 0, 0, heap)
               | Some source \<Rightarrow>
                   (case images scene source of
                      None \<Rightarrow> Inr (False, 0, 0, heap)
                    | Some img \<Rightarrow>
                        if image_size img = 0 then Inl OutOfRange
                        else Inr (True, image_width img, image_height img, heap @ [TextureBlock])))))"

text \<open>
  The body of the loop over the primitives of a mesh. \<open>Return\<close> is the \<open>return\<close> of the
  enclosing function.
\<close>

definition process_primitive ::
  "tinygltf_Scene \<Rightarrow> (string \<times> device_block) list \<Rightarrow> PrimitiveType \<times> int \<Rightarrow> string \<Rightarrow>
   tinygltf_Primitive \<Rightarrow> setup_state \<Rightarrow> setup_error + setup_state flow" where
  "process_primitive scene bufferViewDevPointers uninit meshName primitive st =
     (if indices primitive = [] then Inr (Return st)
      else
        bind_err (at_key (accessors scene) (indices primitive)) (\<lambda>indexAccessor.
        bind_err (at_key (map_of (bufferViews scene)) (bufferView indexAccessor)) (\<lambda>view.
        bind_err (at_key (map_of bufferViewDevPointers) (bufferView indexAccessor)) (\<lambda>dev_bufferView.
          (let nIndices = count indexAccessor;
               heap1 = device_heap st @ [IndexBlock];
               info = switch_mode uninit (mode primitive) nIndices
           in
             bind_err (attributes_loop scene bufferViewDevPointers (attributes primitive) (0, heap1))
               (\<lambda>(nVertices, heap2).
             bind_err (load_material scene (material primitive) (heap2 @ [VertexOutBlock]))
               (\<lambda>(hasTex, texW, texH, heap3).
                Inr (Continue (st
                  \<lparr>totalNumPrimitives := totalNumPrimitives st + snd info,
                   mesh2PrimitivesMap := (mesh2PrimitivesMap st)(meshName \<mapsto>
                     (case mesh2PrimitivesMap st meshName of None \<Rightarrow> [] | Some primitiveVector \<Rightarrow> primitiveVector)
                     @ [\<lparr>info_primitiveMode = mode primitive,
                         info_numPrimitives = snd info,
                         info_numIndices = nIndices,
                         info_numVertices = nVertices,
                         info_primitiveType = fst info,
                         info_hasDiffuseTex = hasTex,
                         info_diffuseTexWidth = texW,
                         info_diffuseTexHeight = texH\<rparr>]),
                   device_heap := heap3\<rparr>)))))))))"

fun primitives_loop ::
  "tinygltf_Scene \<Rightarrow> (string \<times> device_block) list \<Rightarrow> PrimitiveType \<times> int \<Rightarrow> string \<Rightarrow>
   tinygltf_Primitive list \<Rightarrow> setup_state \<Rightarrow> setup_error + setup_state flow" where
  "primitives_loop scene ptrs uninit meshName [] st = Inr (Continue st)"
| "primitives_loop scene ptrs uninit meshName (primitive # rest) st =
     bind_err (process_primitive scene ptrs uninit meshName primitive st) (\<lambda>r.
       case r of
         Return st' \<Rightarrow> Inr (Return st')
       | Continue st' \<Rightarrow> primitives_loop scene ptrs uninit meshName rest st')"

text \<open>
  The loop over the meshes of a node: the mesh gets an entry in \<open>mesh2PrimitivesMap\<close>
  unless it has one, then its primitives are processed.
\<close>

fun meshes_loop ::
  "tinygltf_Scene \<Rightarrow> (string \<times> device_block) list \<Rightarrow> PrimitiveType \<times> int \<Rightarrow>
   string list \<Rightarrow> setup_state \<Rightarrow> setup_error + setup_state flow" where
  "meshes_loop scene ptrs uninit [] st = Inr (Continue st)"
| "meshes_loop scene ptrs uninit (meshName # rest) st =
     bind_err (at_key (meshes scene) meshName) (\<lambda>mesh.
     bind_err (primitives_loop scene ptrs uninit (name mesh) (primitives mesh)
                 (st\<lparr>mesh2PrimitivesMap :=
                      (if mesh2PrimitivesMap st (name mesh) = None
                       then (mesh2PrimitivesMap st)(name mesh \<mapsto> []) else mesh2PrimitivesMap st)\<rparr>)) (\<lambda>r.
       case r of
         Return st' \<Rightarrow> Inr (Return st')
       | Continue st' \<Rightarrow> meshes_loop scene ptrs uninit rest st'))"

fun nodes_loop ::
  "tinygltf_Scene \<Rightarrow> (string \<times> device_block) list \<Rightarrow> PrimitiveType \<times> int \<Rightarrow>
   (string \<times> string list) list \<Rightarrow> setup_state \<Rightarrow> setup_error + setup_state flow" where
  "nodes_loop scene ptrs uninit [] st = Inr (Continue st)"
| "nodes_loop scene ptrs uninit ((node, meshNames) # rest) st =
     bind_err (meshes_loop scene ptrs uninit meshNames st) (\<lambda>r.
       case r of
         Return st' \<Rightarrow> Inr (Return st')
       | Continue st' \<Rightarrow> nodes_loop scene ptrs uninit rest st')"

text \<open>\<open>cudaFree\<close> of each block of \<open>bufferViewDevPointers\<close>.\<close>

definition free_bufferViews :: "(string \<times> device_block) list \<Rightarrow> device_block list \<Rightarrow> device_block list" where
  "free_bufferViews bufferViewDevPointers heap = fold (\<lambda>kb. remove1 (snd kb)) bufferViewDevPointers heap"

text \<open>
  \<open>rasterizeSetBuffers\<close>: the error or the state in which the function returns. A \<open>return\<close>
  inside the loops ends it there; otherwise \<open>dev_primitives\<close> is allocated and the copies
  of the buffer views are freed.
\<close>

definition rasterizeSetBuffers ::
  "tinygltf_Scene \<Rightarrow> (string \<times> string list) list \<Rightarrow> PrimitiveType \<times> int \<Rightarrow> setup_state \<Rightarrow>
   setup_error + setup_state" where
  "rasterizeSetBuffers scene nodes uninit st =
     bind_err (copy_bufferViews scene (bufferViews scene) ([], device_heap st)) (\<lambda>(bufferViewDevPointers, heap).
     bind_err (nodes_loop scene bufferViewDevPointers uninit nodes
                 (st\<lparr>totalNumPrimitives := 0, device_heap := heap\<rparr>)) (\<lambda>r.
       case r of
         Return st' \<Rightarrow> Inr st'
       | Continue st' \<Rightarrow>
           Inr (st'\<lparr>dev_primitives_cells := Some (totalNumPrimitives st'),
                    device_heap := free_bufferViews bufferViewDevPointers (device_heap st' @ [PrimitivesBlock])\<rparr>)))"

text \<open>Concrete data used where a property is evaluated on an input.\<close>

definition lit_Fragment :: Fragment where
  "lit_Fragment = \<lparr>eyeNormal = Vec3 0 0 1, UV = Vec2 0 0, Fragment.diffuseTexture = None,
                   Fragment.texWidth = 0, Fragment.texHeight = 0\<rparr>"

definition lit_buffer :: "int \<Rightarrow> Fragment" where
  "lit_buffer = (\<lambda>i. lit_Fragment)"

definition two_samples :: config where
  "two_samples = source_config\<lparr>SAMPLES := 2\<rparr>"

definition example_vertex :: "real \<Rightarrow> VertexOut" where
  "example_vertex nz = \<lparr>vertexEyePos = Vec4 0 0 0 1, vertexPerspPos = Vec4 0 0 1 1,
     vertexNormal = Vec3 0 0 nz, vertexUV = Vec2 0 0, VertexOut.diffuseTexture = None,
     VertexOut.texWidth = 0, VertexOut.texHeight = 0\<rparr>"

definition example_primitive :: "bool \<Rightarrow> Primitive" where
  "example_primitive c = \<lparr>Primitive.primitiveType = Triangle, v = (\<lambda>s. example_vertex 1), cull = c\<rparr>"

definition example_mesh :: PrimitiveDevBufPointers where
  "example_mesh = \<lparr>primitiveMode = TINYGLTF_MODE_TRIANGLES, numPrimitives = 1, numIndices = 3, numVertices = 3,
     PrimitiveDevBufPointers.primitiveType = Triangle,
     dev_indices = (\<lambda>i. word_of_int i),
     dev_position = (\<lambda>i. Vec3 (real_of_int i) 0 (real_of_int i + 1)),
     dev_normal = (\<lambda>i. Vec3 0 0 1),
     dev_texcoord0 = (\<lambda>i. Vec2 1 (real_of_int i)),
     dev_diffuseTex = None, diffuseTexWidth = 0, diffuseTexHeight = 0,
     dev_verticesOut = (\<lambda>i. example_vertex (if i = 1 then - 1 else 1))\<rparr>"

definition example_MVP :: mat4 where
  "example_MVP = Mat4 (Vec4 1 0 0 0) (Vec4 0 1 0 0) (Vec4 0 0 1 1) (Vec4 0 0 1 0)"

definition example_MV_normal :: mat3 where
  "example_MV_normal = Mat3 (Vec3 1 0 0) (Vec3 0 1 0) (Vec3 0 0 1)"

definition example_assembled :: Primitive where
  "example_assembled = \<lparr>Primitive.primitiveType = Triangle,
     v = (\<lambda>s. vertexTransformAndAssembly source_config 3 example_mesh example_MVP example_MVP
                 example_MV_normal 2 2 s (int s)),
     cull = False\<rparr>"

text \<open>The signed area of the triangle \<open>a\<close>, \<open>b\<close>, \<open>c\<close> on the screen.\<close>

definition calculateSignedArea :: "vec3 \<Rightarrow> vec3 \<Rightarrow> vec3 \<Rightarrow> real" where
  "calculateSignedArea a b c = 1 / 2 * ((x3 c - x3 a) * (y3 b - y3 a) - (x3 b - x3 a) * (y3 c - y3 a))"

text \<open>
  Modelled from the spec: an instance of the helpers of \<open>rasterizeTools.h\<close>, as section 4.4
  describes them. The bounding box of the three vertices is clamped to the image (step 2);
  the barycentric coordinates are ratios of signed areas (step 3); a point is covered when
  the three coordinates are not negative (step 4); the depth is interpolated as the
  reciprocal of z (step 5).
\<close>

definition image_tools :: raster_tools where
  "image_tools =
     \<lparr>getAABBForTriangle = (\<lambda>tri w h.
        \<lparr>aabb_min = Vec3 (max 0 (min (min (x3 (tri ! 0)) (x3 (tri ! 1))) (x3 (tri ! 2))))
                         (max 0 (min (min (y3 (tri ! 0)) (y3 (tri ! 1))) (y3 (tri ! 2)))) 0,
         aabb_max = Vec3 (min (real_of_int w) (max (max (x3 (tri ! 0)) (x3 (tri ! 1))) (x3 (tri ! 2))))
                         (min (real_of_int h) (max (max (y3 (tri ! 0)) (y3 (tri ! 1))) (y3 (tri ! 2)))) 0\<rparr>),
      calculateBarycentricCoordinate = (\<lambda>tri pt.
        (let beta = calculateSignedArea (tri ! 0) (Vec3 (x2 pt) (y2 pt) 0) (tri ! 2)
                      / calculateSignedArea (tri ! 0) (tri ! 1) (tri ! 2);
             gamma = calculateSignedArea (tri ! 0) (tri ! 1) (Vec3 (x2 pt) (y2 pt) 0)
                      / calculateSignedArea (tri ! 0) (tri ! 1) (tri ! 2)
         in Vec3 (1 - beta - gamma) beta gamma)),
      isBarycentricCoordInBounds = (\<lambda>b. 0 \<le> x3 b \<and> 0 \<le> y3 b \<and> 0 \<le> z3 b),
      getZAtCoordinate = (\<lambda>b tri. x3 b * (1 / z3 (tri ! 0)) + y3 b * (1 / z3 (tri ! 1)) + z3 b * (1 / z3 (tri ! 2)))\<rparr>"

text \<open>
  An instance of the three float operations of the depth test: what single precision
  computes on a depth that is a float. \<open>INT_MAX\<close> converts to the nearest float, 2^31, and
  a product by a power of two only changes the exponent. The conversion to int truncates,
  and saturates outside the range of int as the conversion of the device does. The
  conversion of an int keeps 24 significant bits and rounds the rest to nearest, ties to
  even: \<open>excess_bits\<close> is the number of bits that it drops.
\<close>

function excess_bits :: "nat \<Rightarrow> nat" where
  "excess_bits m = (if m < 2 ^ 24 then 0 else Suc (excess_bits (m div 2)))"
  by pat_completeness auto
termination
  by (relation "measure (\<lambda>m. m)") auto

declare excess_bits.simps [simp del]

definition round_to_float :: "int \<Rightarrow> real" where
  "round_to_float i =
     (let m = nat \<bar>i\<bar>; e = excess_bits m; q = m div 2 ^ e; r = m mod 2 ^ e;
          q' = (if 2 ^ e < 2 * r \<or> (2 * r = 2 ^ e \<and> odd q) then q + 1 else q)
      in real_of_int (sgn i) * real (q' * 2 ^ e))"

definition single_precision :: float_ops where
  "single_precision =
     \<lparr>depth_times_INT_MAX = (\<lambda>depth. depth * 2147483648),
      float_as_int = (\<lambda>f. if 2147483648 \<le> f then INT_MAX
                          else if f \<le> - 2147483648 then - INT_MAX - 1
                          else float_to_int f),
      int_as_float = round_to_float\<rparr>"

text \<open>
  A triangle with the screen positions (0,0), (8,0), (0,8), the normal (0,0,1) and the
  depth 1 / 1024 at its three vertices: its encoded depth is 2^21 = 2097152.
\<close>

definition screen_vertex :: "real \<Rightarrow> real \<Rightarrow> VertexOut" where
  "screen_vertex x y = \<lparr>vertexEyePos = Vec4 0 0 0 1, vertexPerspPos = Vec4 x y (1 / 1024) 1,
     vertexNormal = Vec3 0 0 1, vertexUV = Vec2 0 0, VertexOut.diffuseTexture = None,
     VertexOut.texWidth = 0, VertexOut.texHeight = 0\<rparr>"

definition big_triangle :: Primitive where
  "big_triangle = \<lparr>Primitive.primitiveType = Triangle,
     v = (\<lambda>s. if s = 0 then screen_vertex 0 0 else if s = 1 then screen_vertex 8 0 else screen_vertex 0 8),
     cull = False\<rparr>"

definition cleared :: "(int \<Rightarrow> Fragment) \<times> (int \<Rightarrow> int)" where
  "cleared = (\<lambda>i. zero_Fragment, \<lambda>i. INT_MAX)"

definition dark :: "int \<Rightarrow> vec3" where
  "dark = (\<lambda>i. Vec3 0 0 0)"

text \<open>
  A primitive array holding \<open>big_triangle\<close>, and the buffers after its worker has run on a
  cleared image of 2 x 2 pixels: the box is clamped to the image, and the worker visits
  the pixels (0,0), (0,1), (1,0), (1,1), with the indices 0, 2, 1, 3.
\<close>

definition big_triangle_buffer :: "int \<Rightarrow> Primitive" where
  "big_triangle_buffer = (\<lambda>i. big_triangle)"

definition after_big_triangle :: "(int \<Rightarrow> Fragment) \<times> (int \<Rightarrow> int)" where
  "after_big_triangle =
     ((\<lambda>i. zero_Fragment)
        (0 := new_Fragment image_tools source_config big_triangle (Vec2 0 0) 0 0,
         2 := new_Fragment image_tools source_config big_triangle (Vec2 0 0) 0 1,
         1 := new_Fragment image_tools source_config big_triangle (Vec2 0 0) 1 0,
         3 := new_Fragment image_tools source_config big_triangle (Vec2 0 0) 1 1),
      (\<lambda>i. INT_MAX)(0 := 2097152, 2 := 2097152, 1 := 2097152, 3 := 2097152))"

text \<open>
  A scene with one buffer view, one accessor of three elements and one mesh with the
  primitives \<open>ps\<close>, each with the attribute POSITION and no material; the states before
  the setup and after it has processed one triangle primitive or one point primitive;
  a mesh of three points and a primitive array not yet assembled.
\<close>

definition example_primitive_of :: "string \<Rightarrow> tinygltf_mode \<Rightarrow> tinygltf_Primitive" where
  "example_primitive_of ind m = \<lparr>indices = ind, mode = m, material = [], attributes = [(''POSITION'', ''acc'')]\<rparr>"

definition example_scene :: "tinygltf_Primitive list \<Rightarrow> tinygltf_Scene" where
  "example_scene ps =
     \<lparr>bufferViews = [(''view'', \<lparr>buffer = ''bin'', target = 34963\<rparr>)],
      buffers = [''bin'' \<mapsto> 6],
      accessors = [''acc'' \<mapsto> \<lparr>bufferView = ''view'', count = 3\<rparr>],
      meshes = [''mesh'' \<mapsto> \<lparr>name = ''mesh'', primitives = ps\<rparr>],
      materials = Map.empty, textures = Map.empty, images = Map.empty\<rparr>"

definition initial_setup_state :: setup_state where
  "initial_setup_state = \<lparr>totalNumPrimitives = 0, mesh2PrimitivesMap = Map.empty,
     dev_primitives_cells = None, device_heap = []\<rparr>"

definition example_info :: "tinygltf_mode \<Rightarrow> PrimitiveType \<Rightarrow> int \<Rightarrow> PrimitiveDevBufInfo" where
  "example_info m t n = \<lparr>info_primitiveMode = m, info_numPrimitives = n, info_numIndices = 3,
     info_numVertices = 3, info_primitiveType = t, info_hasDiffuseTex = False,
     info_diffuseTexWidth = 0, info_diffuseTexHeight = 0\<rparr>"

definition after_first_primitive :: setup_state where
  "after_first_primitive =
     \<lparr>totalNumPrimitives = 1,
      mesh2PrimitivesMap = [''mesh'' \<mapsto> [example_info TINYGLTF_MODE_TRIANGLES Triangle 1]],
      dev_primitives_cells = None,
      device_heap = [BufferViewBlock ''view'', IndexBlock, AttributeBlock ''POSITION'', VertexOutBlock]\<rparr>"

definition example_points_mesh :: PrimitiveDevBufPointers where
  "example_points_mesh = example_mesh\<lparr>primitiveMode := TINYGLTF_MODE_POINTS, numPrimitives := 3,
     PrimitiveDevBufPointers.primitiveType := Point\<rparr>"

definition after_points_setup :: setup_state where
  "after_points_setup =
     \<lparr>totalNumPrimitives = 3,
      mesh2PrimitivesMap = [''mesh'' \<mapsto> [example_info TINYGLTF_MODE_POINTS Point 3]],
      dev_primitives_cells = Some 3,
      device_heap = [IndexBlock, AttributeBlock ''POSITION'', VertexOutBlock, PrimitivesBlock]\<rparr>"

definition unassembled :: "int \<Rightarrow> Primitive" where
  "unassembled = (\<lambda>i. example_primitive False)"

section \<open>Properties of the shader\<close>

lemma render_index:
  "int x < w \<Longrightarrow> int y < h \<Longrightarrow> eyeNormal (fragmentBuffer (int x + int y * w)) \<noteq> Vec3 0 0 0 \<Longrightarrow>
   render cfg w h fragmentBuffer framebuffer (x, y) (int x + int y * w) =
     vec3_add (framebuffer (int x + int y * w))
       (vec3_scale (SAMPLE_WEIGHT cfg)
          (vec3_clamp
             (vec3_scale (max (vec3_dot (eyeNormal (fragmentBuffer (int x + int y * w))) (Vec3 1 1 1)) 0.4)
                (case Fragment.diffuseTexture (fragmentBuffer (int x + int y * w)) of
                   None \<Rightarrow> Vec3 1 1 1
                 | Some tex \<Rightarrow>
                     if BILINEAR cfg
                     then sampleBilinear (UV (fragmentBuffer (int x + int y * w))) tex
                            (Fragment.texWidth (fragmentBuffer (int x + int y * w)))
                            (Fragment.texHeight (fragmentBuffer (int x + int y * w)))
                     else sample (UV (fragmentBuffer (int x + int y * w))) tex
                            (Fragment.texWidth (fragmentBuffer (int x + int y * w)))
                            (Fragment.texHeight (fragmentBuffer (int x + int y * w))))) 0 1))"
  by (simp add: render_def Let_def)

text \<open>
  C2, evaluated on the code with two samples per axis (weight 1/4). A first pass shades a
  pixel whose fragment has the normal (0,0,1) and no texture: 1/4 is added to each channel
  of the empty accumulator. A second pass finds the zero normal at the same pixel: the
  thread stores black in the accumulator entry, and the 1/4 of the first pass is lost,
  where the claim says it stays.
\<close>

theorem render_zero_normal_overwrites:
  "render two_samples 1 1 lit_buffer dark (0, 0) 0 = Vec3 (1/4) (1/4) (1/4)
   \<and> render two_samples 1 1 (fst cleared) (render two_samples 1 1 lit_buffer dark (0, 0)) (0, 0) 0 = Vec3 0 0 0"
  by (simp add: render_def Let_def lit_buffer_def lit_Fragment_def dark_def cleared_def zero_Fragment_def
        two_samples_def source_config_def SAMPLE_WEIGHT_def vec3_add_def vec3_scale_def vec3_clamp_def
        clamp_real_def vec3_dot_def)

text \<open>
  C8: a pixel inside the image whose fragment has a nonzero normal and a NULL diffuse
  texture is shaded with the base colour white (1,1,1): the thread adds to the pixel's
  frame buffer entry the sample weight times the clamped product of white and the
  lambert term \<open>max (normal . (1,1,1)) 0.4\<close>. The entry is neither left out nor set to the
  background colour.
\<close>

theorem render_null_texture_white:
  assumes "int x < w" and "int y < h"
    and "eyeNormal (fragmentBuffer (int x + int y * w)) \<noteq> Vec3 0 0 0"
    and "Fragment.diffuseTexture (fragmentBuffer (int x + int y * w)) = None"
  shows "render cfg w h fragmentBuffer framebuffer (x, y) (int x + int y * w) =
           vec3_add (framebuffer (int x + int y * w))
             (vec3_scale (SAMPLE_WEIGHT cfg)
                (vec3_clamp
                   (vec3_scale (max (vec3_dot (eyeNormal (fragmentBuffer (int x + int y * w))) (Vec3 1 1 1)) 0.4)
                      (Vec3 1 1 1)) 0 1))"
  using assms by (simp add: render_def Let_def)

theorem render_null_texture_white_witness:
  "int 1 < 2 \<and> int 1 < 2
   \<and> eyeNormal ((\<lambda>i. lit_Fragment) (int 1 + int 1 * 2)) \<noteq> Vec3 0 0 0
   \<and> Fragment.diffuseTexture ((\<lambda>i. lit_Fragment) (int 1 + int 1 * 2)) = None
   \<and> render source_config 2 2 (\<lambda>i. lit_Fragment) (\<lambda>i. Vec3 0 0 0) (1, 1) 3 = Vec3 1 1 1"
  using render_null_texture_white [of 1 2 1 2 "\<lambda>i. lit_Fragment" source_config "\<lambda>i. Vec3 0 0 0"]
  by (simp add: lit_Fragment_def source_config_def SAMPLE_WEIGHT_def vec3_add_def vec3_scale_def
        vec3_clamp_def clamp_real_def vec3_dot_def)

section \<open>Properties of the vertex transformer\<close>

lemma transformed_vertex:
  "int vid < nVertices \<Longrightarrow>
   vertexTransformAndAssembly cfg nVertices primitive MVP MV MV_normal width height vid (int vid) =
     \<lparr>vertexEyePos = mat4_mul MV (Vec4 (x3 (dev_position primitive (int vid))) (y3 (dev_position primitive (int vid)))
                                      (z3 (dev_position primitive (int vid))) 1),
      vertexPerspPos =
        (let clip0 = mat4_mul MVP (Vec4 (x3 (dev_position primitive (int vid))) (y3 (dev_position primitive (int vid)))
                                      (z3 (dev_position primitive (int vid))) 1)
         in Vec4 ((1 - x4 clip0 / w4 clip0) * real_of_int width / 2) ((1 - y4 clip0 / w4 clip0) * real_of_int height / 2)
              (z4 clip0 / w4 clip0) (w4 clip0 / w4 clip0)),
      vertexNormal = vec3_normalize (mat3_mul MV_normal (dev_normal primitive (int vid))),
      vertexUV =
        (let clip0 = mat4_mul MVP (Vec4 (x3 (dev_position primitive (int vid))) (y3 (dev_position primitive (int vid)))
                                      (z3 (dev_position primitive (int vid))) 1)
         in if PERSP_CORRECT cfg then vec2_scale (1 / (z4 clip0 / w4 clip0)) (dev_texcoord0 primitive (int vid))
            else dev_texcoord0 primitive (int vid)),
      VertexOut.diffuseTexture = dev_diffuseTex primitive,
      VertexOut.texWidth = diffuseTexWidth primitive,
      VertexOut.texHeight = diffuseTexHeight primitive\<rparr>"
  by (simp add: vertexTransformAndAssembly_def Let_def vec4_div_def)

lemma interpolatePerspective_spec:
  assumes "vertexUV (v p 0) = vec2_scale (1 / z0) uv0"
    and "vertexUV (v p 1) = vec2_scale (1 / z1) uv1"
    and "vertexUV (v p 2) = vec2_scale (1 / z2) uv2"
  shows "interpolatePerspective p coords (spec_depth coords z0 z1 z2) = spec_perspective_uv coords z0 z1 z2 uv0 uv1 uv2"
  using assms
  by (simp add: interpolatePerspective_def spec_depth_def spec_perspective_uv_def vec2_scale_def vec2_add_def
        field_simps)

text \<open>
  C3: for a primitive whose three slots hold vertices written by the vertex transformer.
  The z-component of the stored position is the z of \<open>MVP * position\<close> after the divide by
  its w. With perspective correction on, each stored UV is the texture coordinate divided
  by that z (the stored w is one: the division is not by w), and \<open>interpolatePerspective\<close>,
  the barycentric combination of the stored UVs multiplied by the depth of the
  specification, is the UV obtained by interpolating UV/z and dividing by the interpolated
  1/z. With perspective correction off, the stored UV is the texture coordinate itself.
\<close>

theorem vertexUV_perspective_correct:
  assumes "int a0 < nVertices" and "int a1 < nVertices" and "int a2 < nVertices"
    and "v p 0 = vertexTransformAndAssembly cfg nVertices primitive MVP MV MV_normal width height a0 (int a0)"
    and "v p 1 = vertexTransformAndAssembly cfg nVertices primitive MVP MV MV_normal width height a1 (int a1)"
    and "v p 2 = vertexTransformAndAssembly cfg nVertices primitive MVP MV MV_normal width height a2 (int a2)"
    and "z4 (vertexPerspPos (v p 0)) \<noteq> 0" and "z4 (vertexPerspPos (v p 1)) \<noteq> 0"
    and "z4 (vertexPerspPos (v p 2)) \<noteq> 0"
    and "x3 coords * (1 / z4 (vertexPerspPos (v p 0))) + y3 coords * (1 / z4 (vertexPerspPos (v p 1)))
           + z3 coords * (1 / z4 (vertexPerspPos (v p 2))) \<noteq> 0"
  shows "z4 (vertexPerspPos (v p 0))
           = z4 (mat4_mul MVP (Vec4 (x3 (dev_position primitive (int a0))) (y3 (dev_position primitive (int a0)))
                                 (z3 (dev_position primitive (int a0))) 1))
             / w4 (mat4_mul MVP (Vec4 (x3 (dev_position primitive (int a0))) (y3 (dev_position primitive (int a0)))
                                 (z3 (dev_position primitive (int a0))) 1))
       \<and> (if PERSP_CORRECT cfg then
            vertexUV (v p 0) = vec2_scale (1 / z4 (vertexPerspPos (v p 0))) (dev_texcoord0 primitive (int a0))
            \<and> vertexUV (v p 1) = vec2_scale (1 / z4 (vertexPerspPos (v p 1))) (dev_texcoord0 primitive (int a1))
            \<and> vertexUV (v p 2) = vec2_scale (1 / z4 (vertexPerspPos (v p 2))) (dev_texcoord0 primitive (int a2))
            \<and> interpolatePerspective p coords
                 (spec_depth coords (z4 (vertexPerspPos (v p 0))) (z4 (vertexPerspPos (v p 1)))
                    (z4 (vertexPerspPos (v p 2))))
               = spec_perspective_uv coords (z4 (vertexPerspPos (v p 0))) (z4 (vertexPerspPos (v p 1)))
                   (z4 (vertexPerspPos (v p 2))) (dev_texcoord0 primitive (int a0))
                   (dev_texcoord0 primitive (int a1)) (dev_texcoord0 primitive (int a2))
          else
            vertexUV (v p 0) = dev_texcoord0 primitive (int a0)
            \<and> vertexUV (v p 1) = dev_texcoord0 primitive (int a1)
            \<and> vertexUV (v p 2) = dev_texcoord0 primitive (int a2))"
proof -
  note tv = transformed_vertex [of _ nVertices cfg primitive MVP MV MV_normal width height]
  have v0: "v p 0 = vertexTransformAndAssembly cfg nVertices primitive MVP MV MV_normal width height a0 (int a0)"
    by (rule assms(4))
  have z: "z4 (vertexPerspPos (v p 0))
           = z4 (mat4_mul MVP (Vec4 (x3 (dev_position primitive (int a0))) (y3 (dev_position primitive (int a0)))
                                 (z3 (dev_position primitive (int a0))) 1))
             / w4 (mat4_mul MVP (Vec4 (x3 (dev_position primitive (int a0))) (y3 (dev_position primitive (int a0)))
                                 (z3 (dev_position primitive (int a0))) 1))"
    unfolding assms(4) tv [OF assms(1)] by (simp add: Let_def)
  show ?thesis
  proof (cases "PERSP_CORRECT cfg")
    case True
    have u0: "vertexUV (v p 0) = vec2_scale (1 / z4 (vertexPerspPos (v p 0))) (dev_texcoord0 primitive (int a0))"
      unfolding assms(4) tv [OF assms(1)] using True by (simp add: Let_def)
    have u1: "vertexUV (v p 1) = vec2_scale (1 / z4 (vertexPerspPos (v p 1))) (dev_texcoord0 primitive (int a1))"
      unfolding assms(5) tv [OF assms(2)] using True by (simp add: Let_def)
    have u2: "vertexUV (v p 2) = vec2_scale (1 / z4 (vertexPerspPos (v p 2))) (dev_texcoord0 primitive (int a2))"
      unfolding assms(6) tv [OF assms(3)] using True by (simp add: Let_def)
    from z u0 u1 u2 interpolatePerspective_spec [OF u0 u1 u2, of coords] True show ?thesis by simp
  next
    case False
    have u0: "vertexUV (v p 0) = dev_texcoord0 primitive (int a0)"
      unfolding assms(4) tv [OF assms(1)] using False by (simp add: Let_def)
    have u1: "vertexUV (v p 1) = dev_texcoord0 primitive (int a1)"
      unfolding assms(5) tv [OF assms(2)] using False by (simp add: Let_def)
    have u2: "vertexUV (v p 2) = dev_texcoord0 primitive (int a2)"
      unfolding assms(6) tv [OF assms(3)] using False by (simp add: Let_def)
    from z u0 u1 u2 False show ?thesis by simp
  qed
qed


lemma example_assembled_v:
  "v example_assembled s = vertexTransformAndAssembly source_config 3 example_mesh example_MVP example_MVP
                 example_MV_normal 2 2 s (int s)"
  by (simp add: example_assembled_def)

lemma example_assembled_z:
  "z4 (vertexPerspPos (v example_assembled 0)) = 2"
  "z4 (vertexPerspPos (v example_assembled 1)) = 3 / 2"
  "z4 (vertexPerspPos (v example_assembled 2)) = 4 / 3"
  "z4 (vertexPerspPos (v example_assembled (Suc 0))) = 3 / 2"
  by (simp_all add: example_assembled_def vertexTransformAndAssembly_def Let_def example_mesh_def
        example_MVP_def vec4_div_def vec4_add_def vec4_scale_def)

lemma example_assembled_uv:
  "vertexUV (v example_assembled 0) = Vec2 (1 / 2) 0"
  "vertexUV (v example_assembled 1) = Vec2 (2 / 3) (2 / 3)"
  "vertexUV (v example_assembled 2) = Vec2 (3 / 4) (3 / 2)"
  by (simp_all add: example_assembled_def vertexTransformAndAssembly_def Let_def example_mesh_def
        example_MVP_def vec4_div_def vec4_add_def vec4_scale_def vec2_scale_def source_config_def)

theorem vertexUV_perspective_correct_witness:
  "int 0 < 3 \<and> int 1 < 3 \<and> int 2 < 3
   \<and> v example_assembled 0 = vertexTransformAndAssembly source_config 3 example_mesh example_MVP example_MVP
                 example_MV_normal 2 2 0 (int 0)
   \<and> v example_assembled 1 = vertexTransformAndAssembly source_config 3 example_mesh example_MVP example_MVP
                 example_MV_normal 2 2 1 (int 1)
   \<and> v example_assembled 2 = vertexTransformAndAssembly source_config 3 example_mesh example_MVP example_MVP
                 example_MV_normal 2 2 2 (int 2)
   \<and> z4 (vertexPerspPos (v example_assembled 0)) = 2
   \<and> z4 (vertexPerspPos (v example_assembled 1)) = 3 / 2
   \<and> z4 (vertexPerspPos (v example_assembled 2)) = 4 / 3
   \<and> PERSP_CORRECT source_config
   \<and> dev_texcoord0 example_mesh (int 1) = Vec2 1 1
   \<and> vertexUV (v example_assembled 1) = Vec2 (2 / 3) (2 / 3)
   \<and> interpolatePerspective example_assembled (Vec3 (1 / 2) (1 / 4) (1 / 4)) (spec_depth (Vec3 (1 / 2) (1 / 4) (1 / 4)) 2 (3 / 2) (4 / 3))
       = Vec2 1 (26 / 29)"
proof -
  have nz: "x3 (Vec3 (1 / 2) (1 / 4) (1 / 4)) * (1 / z4 (vertexPerspPos (v example_assembled 0)))
           + y3 (Vec3 (1 / 2) (1 / 4) (1 / 4)) * (1 / z4 (vertexPerspPos (v example_assembled 1)))
           + z3 (Vec3 (1 / 2) (1 / 4) (1 / 4)) * (1 / z4 (vertexPerspPos (v example_assembled 2))) \<noteq> 0"
    by (simp add: example_assembled_z)
  have pc: "PERSP_CORRECT source_config" by (simp add: source_config_def)
  have tex: "dev_texcoord0 example_mesh 0 = Vec2 1 0" "dev_texcoord0 example_mesh 1 = Vec2 1 1"
    "dev_texcoord0 example_mesh 2 = Vec2 1 2"
    by (simp_all add: example_mesh_def)
  have sp: "spec_perspective_uv (Vec3 (1 / 2) (1 / 4) (1 / 4)) 2 (3 / 2) (4 / 3) (Vec2 1 0) (Vec2 1 1) (Vec2 1 2)
              = Vec2 1 (26 / 29)"
    by (simp add: spec_perspective_uv_def)
  from vertexUV_perspective_correct [of 0 3 1 2 example_assembled source_config example_mesh example_MVP
         example_MVP example_MV_normal 2 2 "Vec3 (1 / 2) (1 / 4) (1 / 4)",
         OF _ _ _ example_assembled_v example_assembled_v example_assembled_v _ _ _ nz]
  have "interpolatePerspective example_assembled (Vec3 (1 / 2) (1 / 4) (1 / 4))
          (spec_depth (Vec3 (1 / 2) (1 / 4) (1 / 4)) 2 (3 / 2) (4 / 3)) = Vec2 1 (26 / 29)
        \<and> vertexUV (v example_assembled 1) = Vec2 (2 / 3) (2 / 3)"
    by (simp add: example_assembled_z pc tex sp vec2_scale_def)
  moreover have "int 0 < (3::int)" "int 1 < (3::int)" "int 2 < (3::int)" "dev_texcoord0 example_mesh (int 1) = Vec2 1 1"
    by (simp_all add: tex)
  ultimately show ?thesis
    using example_assembled_v [of 0] example_assembled_v [of 1] example_assembled_v [of 2]
      example_assembled_z(1,2,3) pc
    by blast
qed

section \<open>Properties of primitive assembly\<close>

lemma run_threads_snoc: "run_threads body (xs @ [x]) s = body x (run_threads body xs s)"
  by (simp add: run_threads_def)

lemma run_threads_Nil: "run_threads body [] s = s"
  by (simp add: run_threads_def)

lemma assembly_step_hit:
  "PrimitiveDevBufPointers.primitiveType primitive = Triangle \<Longrightarrow>
   int x < nIndices \<Longrightarrow> int x div 3 + b = pid \<Longrightarrow>
   primitiveAssembly nIndices b primitive x P pid =
     (P pid)\<lparr>v := (v (P pid))(x mod 3 := dev_verticesOut primitive (uint (dev_indices primitive (int x)))),
             cull := z3 (vertexNormal (dev_verticesOut primitive (uint (dev_indices primitive (int x))))) < 0\<rparr>"
  by (simp add: primitiveAssembly_def Let_def nat_mod_distrib)

lemma assembly_step_miss:
  "PrimitiveDevBufPointers.primitiveType primitive = Triangle \<Longrightarrow>
   \<not> (int x < nIndices \<and> int x div 3 + b = pid) \<Longrightarrow>
   primitiveAssembly nIndices b primitive x P pid = P pid"
  by (auto simp: primitiveAssembly_def Let_def)

lemma assembly_cull_last:
  assumes tri: "PrimitiveDevBufPointers.primitiveType primitive = Triangle"
  shows "filter (\<lambda>i. int i < nIndices \<and> int i div 3 + b = pid) sched \<noteq> [] \<Longrightarrow>
     cull (run_threads (primitiveAssembly nIndices b primitive) sched dev_primitives pid)
       = (z3 (vertexNormal (dev_verticesOut primitive (uint (dev_indices primitive
            (int (last (filter (\<lambda>i. int i < nIndices \<and> int i div 3 + b = pid) sched))))))) < 0)"
proof (induction sched rule: rev_induct)
  case Nil
  then show ?case by simp
next
  case (snoc x xs)
  show ?case
  proof (cases "int x < nIndices \<and> int x div 3 + b = pid")
    case True
    then show ?thesis
      unfolding run_threads_snoc by (simp add: assembly_step_hit [OF tri])
  next
    case False
    then have "filter (\<lambda>i. int i < nIndices \<and> int i div 3 + b = pid) (xs @ [x])
                 = filter (\<lambda>i. int i < nIndices \<and> int i div 3 + b = pid) xs" by auto
    moreover from False
    have "run_threads (primitiveAssembly nIndices b primitive) (xs @ [x]) dev_primitives pid
            = run_threads (primitiveAssembly nIndices b primitive) xs dev_primitives pid"
      unfolding run_threads_snoc by (rule assembly_step_miss [OF tri])
    ultimately show ?thesis using snoc by simp
  qed
qed

lemma assembly_slot:
  assumes tri: "PrimitiveDevBufPointers.primitiveType primitive = Triangle"
    and j: "j < 3" and inb: "int (3 * k + j) < nIndices"
  shows "3 * k + j \<in> set sched \<Longrightarrow>
     v (run_threads (primitiveAssembly nIndices b primitive) sched dev_primitives (int k + b)) j
       = dev_verticesOut primitive (uint (dev_indices primitive (int (3 * k + j))))"
proof (induction sched rule: rev_induct)
  case Nil
  then show ?case by simp
next
  case (snoc x xs)
  show ?case
  proof (cases "x = 3 * k + j")
    case True
    have "int x < nIndices" "int x div 3 + b = int k + b" "x mod 3 = j"
      using True inb j by auto
    then show ?thesis
      unfolding run_threads_snoc using True by (simp add: assembly_step_hit [OF tri])
  next
    case False
    with snoc have IH: "v (run_threads (primitiveAssembly nIndices b primitive) xs dev_primitives (int k + b)) j
       = dev_verticesOut primitive (uint (dev_indices primitive (int (3 * k + j))))" by simp
    show ?thesis
    proof (cases "int x < nIndices \<and> int x div 3 + b = int k + b")
      case hit: True
      then have "x div 3 = k" by linarith
      with False have "x mod 3 \<noteq> j" by presburger
      with hit IH show ?thesis
        unfolding run_threads_snoc by (simp add: assembly_step_hit [OF tri])
    next
      case miss: False
      with IH show ?thesis
        unfolding run_threads_snoc by (simp only: assembly_step_miss [OF tri miss])
    qed
  qed
qed

text \<open>
  C4: one launch of the assembly kernel for a triangle mesh, its threads taking effect in
  any order \<open>sched\<close>. Once the three threads of the primitive \<open>k\<close> have run, its three
  slots hold the vertices named by the index triple, and its cull flag is true if and
  only if the vertex written last (the one of the last of the primitive's threads in the
  schedule) has an eye-space normal with a negative z-component.
\<close>

theorem cull_flag_last_written:
  assumes "PrimitiveDevBufPointers.primitiveType primitive = Triangle"
    and "int (3 * k + 2) < nIndices"
    and "3 * k \<in> set sched" and "3 * k + 1 \<in> set sched" and "3 * k + 2 \<in> set sched"
  shows "(cull (run_threads (primitiveAssembly nIndices b primitive) sched dev_primitives (int k + b))
          \<longleftrightarrow> z3 (vertexNormal (dev_verticesOut primitive (uint (dev_indices primitive
                 (int (last (filter (\<lambda>i. i div 3 = k) sched))))))) < 0)
       \<and> v (run_threads (primitiveAssembly nIndices b primitive) sched dev_primitives (int k + b)) 0
           = dev_verticesOut primitive (uint (dev_indices primitive (int (3 * k))))
       \<and> v (run_threads (primitiveAssembly nIndices b primitive) sched dev_primitives (int k + b)) 1
           = dev_verticesOut primitive (uint (dev_indices primitive (int (3 * k + 1))))
       \<and> v (run_threads (primitiveAssembly nIndices b primitive) sched dev_primitives (int k + b)) 2
           = dev_verticesOut primitive (uint (dev_indices primitive (int (3 * k + 2))))"
proof -
  have same: "(\<lambda>i. int i < nIndices \<and> int i div 3 + b = int k + b) = (\<lambda>i. i div 3 = k)"
  proof
    fix i
    have "int i div 3 = int (i div 3)" by simp
    moreover have "i div 3 = k \<Longrightarrow> int i < nIndices" using assms(2) by linarith
    ultimately show "(int i < nIndices \<and> int i div 3 + b = int k + b) = (i div 3 = k)"
      by auto
  qed
  have "(3 * k) div 3 = k" by simp
  with assms(3) have "filter (\<lambda>i. i div 3 = k) sched \<noteq> []"
    unfolding filter_empty_conv by blast
  then have ne: "filter (\<lambda>i. int i < nIndices \<and> int i div 3 + b = int k + b) sched \<noteq> []"
    unfolding same .
  have c: "cull (run_threads (primitiveAssembly nIndices b primitive) sched dev_primitives (int k + b))
          \<longleftrightarrow> z3 (vertexNormal (dev_verticesOut primitive (uint (dev_indices primitive
                 (int (last (filter (\<lambda>i. i div 3 = k) sched))))))) < 0"
    using assembly_cull_last [OF assms(1) ne, of dev_primitives] unfolding same .
  have s0: "v (run_threads (primitiveAssembly nIndices b primitive) sched dev_primitives (int k + b)) 0
           = dev_verticesOut primitive (uint (dev_indices primitive (int (3 * k))))"
    using assembly_slot [OF assms(1), of 0 k nIndices sched b dev_primitives] assms(2,3) by simp
  have s1: "v (run_threads (primitiveAssembly nIndices b primitive) sched dev_primitives (int k + b)) 1
           = dev_verticesOut primitive (uint (dev_indices primitive (int (3 * k + 1))))"
    using assembly_slot [OF assms(1), of 1 k nIndices sched b dev_primitives] assms(2,4) by simp
  have s2: "v (run_threads (primitiveAssembly nIndices b primitive) sched dev_primitives (int k + b)) 2
           = dev_verticesOut primitive (uint (dev_indices primitive (int (3 * k + 2))))"
    using assembly_slot [OF assms(1), of 2 k nIndices sched b dev_primitives] assms(2,5) by simp
  from c s0 s1 s2 show ?thesis by blast
qed

theorem cull_flag_last_written_witness:
  "PrimitiveDevBufPointers.primitiveType example_mesh = Triangle
   \<and> int (3 * 0 + 2) < 3 \<and> 3 * 0 \<in> set [0, 2, 1::nat] \<and> 3 * 0 + 1 \<in> set [0, 2, 1::nat] \<and> 3 * 0 + 2 \<in> set [0, 2, 1::nat]
   \<and> last (filter (\<lambda>i. i div 3 = 0) [0, 2, 1::nat]) = 1
   \<and> cull (run_threads (primitiveAssembly 3 0 example_mesh) [0, 2, 1] (\<lambda>i. example_primitive False) 0)"
  using cull_flag_last_written [of example_mesh 0 3 "[0, 2, 1]" 0 "\<lambda>i. example_primitive False"]
  by (simp add: example_mesh_def example_vertex_def)

section \<open>Properties of the culler\<close>

lemma remove_if_loop_done: "\<not> i < n \<Longrightarrow> remove_if_loop pred n i j a = (a, j)"
  by (subst remove_if_loop.simps) simp

lemma remove_if_loop_drop:
  "i < n \<Longrightarrow> pred (a (int i)) \<Longrightarrow> remove_if_loop pred n i j a = remove_if_loop pred n (Suc i) j a"
  by (subst remove_if_loop.simps) simp

lemma remove_if_loop_keep:
  "i < n \<Longrightarrow> \<not> pred (a (int i)) \<Longrightarrow>
   remove_if_loop pred n i j a = remove_if_loop pred n (Suc i) (Suc j) (a(int j := a (int i)))"
  by (subst remove_if_loop.simps) simp

lemma remove_if_loop_inv:
  "j \<le> i \<Longrightarrow> i \<le> n \<Longrightarrow>
   map (fst (remove_if_loop pred n i j a) \<circ> int) [0 ..< snd (remove_if_loop pred n i j a)]
     = map (a \<circ> int) [0 ..< j] @ filter (\<lambda>p. \<not> pred p) (map (a \<circ> int) [i ..< n])"
proof (induction pred n i j a rule: remove_if_loop.induct)
  case (1 pred n i j a)
  show ?case
  proof (cases "i < n")
    case False
    with 1(3,4) show ?thesis by (simp add: remove_if_loop_done)
  next
    case inb: True
    then have split: "[i ..< n] = i # [Suc i ..< n]" by (simp add: upt_conv_Cons)
    show ?thesis
    proof (cases "pred (a (int i))")
      case True
      with 1 inb show ?thesis
        by (simp add: remove_if_loop_drop split)
    next
      case False
      have m1: "map (a(int j := a (int i)) \<circ> int) [0 ..< Suc j] = map (a \<circ> int) [0 ..< j] @ [a (int i)]"
        by simp
      have m2: "map (a(int j := a (int i)) \<circ> int) [Suc i ..< n] = map (a \<circ> int) [Suc i ..< n]"
        using \<open>j \<le> i\<close> by simp
      have "map (fst (remove_if_loop pred n (Suc i) (Suc j) (a(int j := a (int i)))) \<circ> int)
              [0 ..< snd (remove_if_loop pred n (Suc i) (Suc j) (a(int j := a (int i))))]
            = map (a(int j := a (int i)) \<circ> int) [0 ..< Suc j]
              @ filter (\<lambda>p. \<not> pred p) (map (a(int j := a (int i)) \<circ> int) [Suc i ..< n])"
        using 1(3) inb by (intro 1(2) [OF inb False]) simp_all
      also have "\<dots> = map (a \<circ> int) [0 ..< j] @ filter (\<lambda>p. \<not> pred p) (map (a \<circ> int) [i ..< n])"
        unfolding m1 m2 split using False by simp
      finally show ?thesis
        by (simp only: remove_if_loop_keep [of i n pred a j, OF inb False])
    qed
  qed
qed

lemma remove_if_loop_count:
  "j \<le> i \<Longrightarrow> i \<le> n \<Longrightarrow>
   snd (remove_if_loop pred n i j a) + length (filter pred (map (a \<circ> int) [i ..< n])) = j + (n - i)"
proof (induction pred n i j a rule: remove_if_loop.induct)
  case (1 pred n i j a)
  show ?case
  proof (cases "i < n")
    case False
    with 1(3,4) show ?thesis by (simp add: remove_if_loop_done)
  next
    case inb: True
    then have split: "[i ..< n] = i # [Suc i ..< n]" by (simp add: upt_conv_Cons)
    show ?thesis
    proof (cases "pred (a (int i))")
      case True
      with 1 inb show ?thesis
        by (simp add: remove_if_loop_drop split)
    next
      case False
      have m2: "map (a(int j := a (int i)) \<circ> int) [Suc i ..< n] = map (a \<circ> int) [Suc i ..< n]"
        using \<open>j \<le> i\<close> by simp
      have "snd (remove_if_loop pred n (Suc i) (Suc j) (a(int j := a (int i))))
              + length (filter pred (map (a(int j := a (int i)) \<circ> int) [Suc i ..< n])) = Suc j + (n - Suc i)"
        using 1(3) inb by (intro 1(2) [OF inb False]) simp_all
      then have "snd (remove_if_loop pred n (Suc i) (Suc j) (a(int j := a (int i))))
              + length (filter pred (map (a \<circ> int) [i ..< n])) = j + (n - i)"
        unfolding m2 split using False inb by simp
      then show ?thesis
        by (simp only: remove_if_loop_keep [of i n pred a j, OF inb False])
    qed
  qed
qed

text \<open>
  C5: with backface culling on, the culler leaves in the first \<open>frontPrims\<close> cells of the
  primitive array exactly the primitives whose cull flag is false, in the order they had
  in the input, and \<open>frontPrims\<close> plus the number of culled primitives is the original
  count.
\<close>

theorem cull_stage_stable_partition:
  assumes "BACKFACE_CULLING cfg" and "0 \<le> totalPrims"
  shows "map (fst (cull_stage cfg prims totalPrims) \<circ> int) [0 ..< nat (snd (cull_stage cfg prims totalPrims))]
           = filter (\<lambda>p. \<not> cull p) (map (prims \<circ> int) [0 ..< nat totalPrims])
       \<and> snd (cull_stage cfg prims totalPrims) + int (length (filter cull (map (prims \<circ> int) [0 ..< nat totalPrims])))
           = totalPrims"
proof -
  have inv: "map (fst (remove_if_loop toCull (nat totalPrims) 0 0 prims) \<circ> int)
               [0 ..< snd (remove_if_loop toCull (nat totalPrims) 0 0 prims)]
             = filter (\<lambda>p. \<not> toCull p) (map (prims \<circ> int) [0 ..< nat totalPrims])"
    using remove_if_loop_inv [of 0 0 "nat totalPrims" toCull prims] by simp
  have cnt: "snd (remove_if_loop toCull (nat totalPrims) 0 0 prims)
               + length (filter toCull (map (prims \<circ> int) [0 ..< nat totalPrims])) = nat totalPrims"
    using remove_if_loop_count [of 0 0 "nat totalPrims" toCull prims] by simp
  have tc: "toCull = cull" by (rule ext) (simp add: toCull_def)
  from inv have a: "map (fst (cull_stage cfg prims totalPrims) \<circ> int) [0 ..< nat (snd (cull_stage cfg prims totalPrims))]
           = filter (\<lambda>p. \<not> cull p) (map (prims \<circ> int) [0 ..< nat totalPrims])"
    using assms(1) by (simp add: cull_stage_def remove_if_def Let_def tc)
  from cnt have "int (snd (remove_if_loop toCull (nat totalPrims) 0 0 prims))
               + int (length (filter toCull (map (prims \<circ> int) [0 ..< nat totalPrims]))) = int (nat totalPrims)"
    by (metis of_nat_add)
  then have b: "snd (cull_stage cfg prims totalPrims) + int (length (filter cull (map (prims \<circ> int) [0 ..< nat totalPrims])))
           = totalPrims"
    using assms by (simp add: cull_stage_def remove_if_def Let_def tc)
  from a b show ?thesis ..
qed

lemma upt3: "[0 ..< 3] = [0, 1, 2]" "[0..<2] = [0,1]"
  by (simp_all add: upt_rec)

theorem cull_stage_stable_partition_witness:
  "BACKFACE_CULLING source_config \<and> (0::int) \<le> 3
   \<and> snd (cull_stage source_config (\<lambda>i. example_primitive (i = 1)) 3) = 2
   \<and> map (cull \<circ> (fst (cull_stage source_config (\<lambda>i. example_primitive (i = 1)) 3) \<circ> int)) [0 ..< 2] = [False, False]"
proof -
  have t: "nat 3 = 3" by simp
  have c: "length (filter cull (map ((\<lambda>i. example_primitive (i = 1)) \<circ> int) [0 ..< 3])) = 1"
    by (simp add: upt3 example_primitive_def)
  have f: "filter (\<lambda>p. \<not> cull p) (map ((\<lambda>i. example_primitive (i = 1)) \<circ> int) [0 ..< 3])
             = [example_primitive False, example_primitive False]"
    by (simp add: upt3 example_primitive_def)
  have h1: "BACKFACE_CULLING source_config" by (simp add: source_config_def)
  note th = cull_stage_stable_partition [OF h1, of 3 "\<lambda>i. example_primitive (i = 1)", unfolded t c f]
  from th have s: "snd (cull_stage source_config (\<lambda>i. example_primitive (i = 1)) 3) = 2" by simp
  from th s have "map (fst (cull_stage source_config (\<lambda>i. example_primitive (i = 1)) 3) \<circ> int) [0 ..< 2]
      = [example_primitive False, example_primitive False]" by simp
  then have "map cull (map (fst (cull_stage source_config (\<lambda>i. example_primitive (i = 1)) 3) \<circ> int) [0 ..< 2])
      = [False, False]" by (simp add: example_primitive_def)
  with h1 s show ?thesis by simp
qed

section \<open>Properties of the rasterizer\<close>

lemma sample_offsets_length: "length (sample_offsets cfg) = nat (SAMPLES cfg) * nat (SAMPLES cfg)"
  by (simp add: sample_offsets_def length_concat comp_def sum_list_triv)

lemma fragment_pixel_cases:
  "fragment_pixel F T cfg p w h off x y bufs =
     (if covers T p off x y then
        if y * w + x > w * h then Return bufs
        else if wins_depth_test F T p w h off (snd bufs) x y then
          Continue ((fst bufs)(y * w + x := new_Fragment T cfg p off x y),
                    atomicMin (snd bufs) (y * w + x) (float_as_int F (encoded_depth F T p off x y)))
        else Continue (fst bufs, atomicMin (snd bufs) (y * w + x) (float_as_int F (encoded_depth F T p off x y)))
      else Continue bufs)"
  by (simp add: fragment_pixel_def covers_def wins_depth_test_def new_Fragment_def encoded_depth_def Let_def)

lemma atomicMin_le: "atomicMin db j val i \<le> db i"
  by (simp add: atomicMin_def)

lemma for_loop_inv:
  "(\<And>i s. P s \<Longrightarrow> P (flow_state (body i s))) \<Longrightarrow> P s \<Longrightarrow> P (flow_state (for_loop i hi body s))"
proof (induction i hi body s rule: for_loop.induct)
  case (1 i hi body s)
  show ?case
  proof (cases "real_of_int i < hi")
    case False
    with 1(3) show ?thesis by (subst for_loop.simps) simp
  next
    case True
    have here: "P (flow_state (body i s))" by (rule 1(2) [OF 1(3)])
    show ?thesis
    proof (cases "body i s")
      case (Return s')
      from here have "P s'" unfolding Return by simp
      with True Return show ?thesis by (subst for_loop.simps) simp
    next
      case (Continue s')
      from here have "P s'" unfolding Continue by simp
      from 1(1) [OF True Continue 1(2) this] True Continue show ?thesis
        by (subst for_loop.simps) simp
    qed
  qed
qed

lemma fragment_pixel_depth_le:
  "snd (flow_state (fragment_pixel F T cfg p w h off x y bufs)) i \<le> snd bufs i"
  by (simp add: fragment_pixel_cases atomicMin_le)

lemma column_loop_inv:
  "(\<And>x y s. P s \<Longrightarrow> P (flow_state (fragment_pixel F T cfg p w h off x y s))) \<Longrightarrow> P s \<Longrightarrow>
   P (flow_state (column_loop F T cfg p w h off tb x s))"
  unfolding column_loop_def by (rule for_loop_inv)

lemma generateFragments_inv:
  assumes pix: "\<And>x y s. P s \<Longrightarrow> P (flow_state (fragment_pixel F T cfg (prims (int k)) w h off x y s))"
    and init: "P bufs"
  shows "P (generateFragments F T cfg n prims w h off k bufs)"
proof (cases "int k \<ge> n")
  case True
  with init show ?thesis by (simp add: generateFragments_def)
next
  case False
  have "P (flow_state (for_loop lo hi
             (column_loop F T cfg (prims (int k)) w h off tb) bufs))" for lo hi tb
    by (rule for_loop_inv [OF column_loop_inv [where P = P, OF pix] init])
  with False show ?thesis by (simp add: generateFragments_def Let_def)
qed

lemma generateFragments_depth_le:
  "snd (generateFragments F T cfg n prims w h off k bufs) i \<le> snd bufs i"
proof (rule generateFragments_inv [where P = "\<lambda>s. snd s i \<le> snd bufs i"])
  fix x y and s :: "(int \<Rightarrow> Fragment) \<times> (int \<Rightarrow> int)"
  assume "snd s i \<le> snd bufs i"
  with fragment_pixel_depth_le [of F T cfg "prims (int k)" w h off x y s i]
  show "snd (flow_state (fragment_pixel F T cfg (prims (int k)) w h off x y s)) i \<le> snd bufs i"
    by linarith
qed simp

lemma run_threads_append: "run_threads body (xs @ ys) s = run_threads body ys (run_threads body xs s)"
  by (simp add: run_threads_def)

lemma run_threads_Cons: "run_threads body (x # xs) s = run_threads body xs (body x s)"
  by (simp add: run_threads_def)

lemma run_generateFragments_depth_le:
  "snd (run_threads (generateFragments F T cfg n prims w h off) sched bufs) i \<le> snd bufs i"
proof (induction sched arbitrary: bufs)
  case Nil
  show ?case by (simp add: run_threads_def)
next
  case (Cons k ks)
  have "snd (run_threads (generateFragments F T cfg n prims w h off) ks (generateFragments F T cfg n prims w h off k bufs)) i
          \<le> snd (generateFragments F T cfg n prims w h off k bufs) i" by (rule Cons)
  also have "\<dots> \<le> snd bufs i" by (rule generateFragments_depth_le)
  finally show ?case by (simp only: run_threads_Cons)
qed

lemma initDepth_apply:
  "initDepth w h t d j =
     (if int (fst t) < w \<and> int (snd t) < h \<and> j = int (fst t) + int (snd t) * w then INT_MAX else d j)"
  by (simp add: initDepth_def Let_def)

lemma initDepth_run:
  "(x, y) \<in> set sched \<Longrightarrow> int x < w \<Longrightarrow> int y < h \<Longrightarrow>
   run_threads (initDepth w h) sched depth (int x + int y * w) = INT_MAX"
proof (induction sched rule: rev_induct)
  case Nil
  then show ?case by simp
next
  case (snoc t ts)
  show ?case
  proof (cases "t = (x, y)")
    case True
    with snoc(3,4) show ?thesis
      unfolding run_threads_snoc by (simp add: initDepth_apply)
  next
    case False
    with snoc have "run_threads (initDepth w h) ts depth (int x + int y * w) = INT_MAX" by simp
    then show ?thesis
      unfolding run_threads_snoc by (simp add: initDepth_apply)
  qed
qed

lemma blockCount2d_eq:
  assumes "0 < w" "w < 2 ^ 31" "0 < h" "h < 2 ^ 31"
  shows "blockCount2d w h = (nat ((w - 1) div 8 + 1), nat ((h - 1) div 8 + 1))"
proof -
  have bw: "(w - 1) mod 2 ^ 32 = w - 1" using assms(1,2) by (intro mod_pos_pos_trivial) simp_all
  have bh: "(h - 1) mod 2 ^ 32 = h - 1" using assms(3,4) by (intro mod_pos_pos_trivial) simp_all
  have cw: "((w - 1) div 8 + 1) mod 2 ^ 32 = (w - 1) div 8 + 1"
    using assms(1,2) by (intro mod_pos_pos_trivial) simp_all
  have ch: "((h - 1) div 8 + 1) mod 2 ^ 32 = (h - 1) div 8 + 1"
    using assms(3,4) by (intro mod_pos_pos_trivial) simp_all
  show ?thesis unfolding blockCount2d_def bw bh cw ch ..
qed

lemma grid2d_covers:
  assumes "0 < w" "w < 2 ^ 31" "0 < h" "h < 2 ^ 31" "int x < w" "int y < h"
  shows "(x, y) \<in> set (grid2d w h)"
proof -
  have "w \<le> ((w - 1) div 8 + 1) * 8" by presburger
  then have "int x < ((w - 1) div 8 + 1) * 8" using assms(5) by linarith
  moreover have "0 \<le> (w - 1) div 8 + 1" using assms(1) by simp
  ultimately have "int x < int (nat ((w - 1) div 8 + 1) * 8)" by simp
  then have x: "x < nat ((w - 1) div 8 + 1) * 8" by (simp only: of_nat_less_iff)
  have "h \<le> ((h - 1) div 8 + 1) * 8" by presburger
  then have "int y < ((h - 1) div 8 + 1) * 8" using assms(6) by linarith
  moreover have "0 \<le> (h - 1) div 8 + 1" using assms(3) by simp
  ultimately have "int y < int (nat ((h - 1) div 8 + 1) * 8)" by simp
  then have y: "y < nat ((h - 1) div 8 + 1) * 8" by (simp only: of_nat_less_iff)
  from x y show ?thesis
    unfolding grid2d_def blockCount2d_eq [OF assms(1-4)] by simp
qed

lemma initDepth_all:
  assumes "0 < w" "w < 2 ^ 31" "0 < h" "h < 2 ^ 31" "0 \<le> i" "i < w * h" "set (grid2d w h) \<subseteq> set sched2"
  shows "run_threads (initDepth w h) sched2 depth i = INT_MAX"
proof -
  have x: "0 \<le> i mod w" "i mod w < w" using assms(1) by simp_all
  have y0: "0 \<le> i div w" using assms(1,5) by (simp add: pos_imp_zdiv_nonneg_iff)
  have "i div w * w + i mod w = i" by simp
  with x(1) have le: "i div w * w \<le> i" by linarith
  have "i div w < h"
  proof (rule ccontr)
    assume "\<not> i div w < h"
    then have "h * w \<le> i div w * w" using assms(1) by (intro mult_right_mono) simp_all
    with le assms(6) show False by (simp add: mult.commute)
  qed
  with x y0 have "(nat (i mod w), nat (i div w)) \<in> set (grid2d w h)"
    by (intro grid2d_covers assms) simp_all
  with assms(7) have "(nat (i mod w), nat (i div w)) \<in> set sched2" by blast
  from initDepth_run [OF this, of w h depth] x y0 \<open>i div w < h\<close>
  have "run_threads (initDepth w h) sched2 depth (i mod w + i div w * w) = INT_MAX" by simp
  then show ?thesis by simp
qed

lemma for_loop_Continue:
  "real_of_int i < hi \<Longrightarrow> body i s = Continue s' \<Longrightarrow> for_loop i hi body s = for_loop (i + 1) hi body s'"
  by (subst for_loop.simps) simp

lemma for_loop_Return:
  "real_of_int i < hi \<Longrightarrow> body i s = Return s' \<Longrightarrow> for_loop i hi body s = Return s'"
  by (subst for_loop.simps) simp

lemma for_loop_done:
  "\<not> real_of_int i < hi \<Longrightarrow> for_loop i hi body s = Continue s"
  by (subst for_loop.simps) simp

lemma fragment_pixel_skip:
  "\<not> covers T p off x y \<or> y * w + x > w * h \<Longrightarrow> flow_state (fragment_pixel F T cfg p w h off x y s) = s"
  by (cases "covers T p off x y") (simp_all add: fragment_pixel_cases)

lemma fragment_pixel_win:
  "covers T p off x y \<Longrightarrow> \<not> y * w + x > w * h \<Longrightarrow> wins_depth_test F T p w h off (snd s) x y \<Longrightarrow>
   flow_state (fragment_pixel F T cfg p w h off x y s)
     = ((fst s)(y * w + x := new_Fragment T cfg p off x y),
        atomicMin (snd s) (y * w + x) (float_as_int F (encoded_depth F T p off x y)))"
  by (simp add: fragment_pixel_cases)

lemma fragment_pixel_lose:
  "covers T p off x y \<Longrightarrow> \<not> y * w + x > w * h \<Longrightarrow> \<not> wins_depth_test F T p w h off (snd s) x y \<Longrightarrow>
   flow_state (fragment_pixel F T cfg p w h off x y s)
     = (fst s, atomicMin (snd s) (y * w + x) (float_as_int F (encoded_depth F T p off x y)))"
  by (simp add: fragment_pixel_cases)

text \<open>
  The depth test is passed by a primitive that covers the pixel when its encoded depth
  is not above the entry that it finds and survives the two conversions unchanged.
\<close>

lemma minimum_holder_wins:
  assumes "covers T p off x y" and "y * w + x \<le> w * h"
    and "float_as_int F (encoded_depth F T p off x y) \<le> db (y * w + x)"
    and "int_as_float F (float_as_int F (encoded_depth F T p off x y)) = encoded_depth F T p off x y"
  shows "wins_depth_test F T p w h off db x y"
  using assms by (simp add: wins_depth_test_def atomicMin_def min_def)


lemma fragment_pixel_write:
  assumes "fst s idx \<noteq> f" and "fst (flow_state (fragment_pixel F T cfg p w h off x y s)) idx = f"
  shows "wins_depth_test F T p w h off (snd s) x y \<and> y * w + x = idx \<and> f = new_Fragment T cfg p off x y"
proof (cases "\<not> covers T p off x y \<or> y * w + x > w * h")
  case True
  from assms show ?thesis unfolding fragment_pixel_skip [OF True] by simp
next
  case False
  then have cov: "covers T p off x y" and inr: "\<not> y * w + x > w * h" by simp_all
  show ?thesis
  proof (cases "wins_depth_test F T p w h off (snd s) x y")
    case True
    from assms(2) have "((fst s)(y * w + x := new_Fragment T cfg p off x y)) idx = f"
      unfolding fragment_pixel_win [OF cov inr True] by simp
    with assms(1) have "y * w + x = idx \<and> f = new_Fragment T cfg p off x y"
      by (cases "y * w + x = idx") simp_all
    with True show ?thesis by simp
  next
    case False
    from assms show ?thesis unfolding fragment_pixel_lose [OF cov inr False] by simp
  qed
qed








lemma for_loop_transition:
  "\<not> Q s \<Longrightarrow> Q (flow_state (for_loop i hi body s)) \<Longrightarrow>
   \<exists>j t. i \<le> j \<and> real_of_int j < hi \<and> for_loop i (real_of_int j) body s = Continue t
        \<and> \<not> Q t \<and> Q (flow_state (body j t))"
proof (induction i hi body s rule: for_loop.induct)
  case (1 i hi body s)
  show ?case
  proof (cases "real_of_int i < hi")
    case False
    with 1(2,3) show ?thesis by (simp add: for_loop_done)
  next
    case True
    show ?thesis
    proof (cases "Q (flow_state (body i s))")
      case True
      have "for_loop i (real_of_int i) body s = Continue s" by (simp add: for_loop_done)
      with \<open>real_of_int i < hi\<close> 1(2) True show ?thesis by blast
    next
      case False
      show ?thesis
      proof (cases "body i s")
        case (Return s')
        from 1(3) have "Q s'" unfolding for_loop_Return [of i hi body s s', OF True Return] by simp
        with False Return show ?thesis by simp
      next
        case (Continue s')
        from False Continue have n: "\<not> Q s'" by simp
        from 1(3) have "Q (flow_state (for_loop (i + 1) hi body s'))"
          unfolding for_loop_Continue [of i hi body s s', OF True Continue] .
        from 1(1) [OF True Continue n this] obtain j t where
          j: "i + 1 \<le> j" "real_of_int j < hi" "for_loop (i + 1) (real_of_int j) body s' = Continue t"
             "\<not> Q t" "Q (flow_state (body j t))" by blast
        from j(1) have lt: "real_of_int i < real_of_int j" by simp
        have "for_loop i (real_of_int j) body s = Continue t"
          unfolding for_loop_Continue [of i "real_of_int j" body s s', OF lt Continue] by (rule j(3))
        moreover from j(1) have "i \<le> j" by simp
        ultimately show ?thesis using j(2,4,5) by blast
      qed
    qed
  qed
qed

lemma run_threads_transition:
  "\<not> Q s \<Longrightarrow> Q (run_threads body sched s) \<Longrightarrow>
   \<exists>s1 k s2. sched = s1 @ k # s2 \<and> \<not> Q (run_threads body s1 s) \<and> Q (body k (run_threads body s1 s))"
proof (induction sched rule: rev_induct)
  case Nil
  then show ?case by (simp add: run_threads_def)
next
  case (snoc k ks)
  show ?case
  proof (cases "Q (run_threads body ks s)")
    case True
    from snoc(1) [OF snoc(2) True] obtain s1 k' s2 where
      "ks = s1 @ k' # s2" "\<not> Q (run_threads body s1 s)" "Q (body k' (run_threads body s1 s))" by blast
    then have "ks @ [k] = s1 @ k' # (s2 @ [k])" by simp
    with \<open>\<not> Q (run_threads body s1 s)\<close> \<open>Q (body k' (run_threads body s1 s))\<close> show ?thesis by blast
  next
    case False
    from snoc(3) have "Q (body k (run_threads body ks s))" by (simp add: run_threads_def)
    moreover have "ks @ [k] = ks @ k # []" by simp
    ultimately show ?thesis using False by blast
  qed
qed

lemma generateFragments_transition:
  assumes "fst s idx \<noteq> f" and "fst (generateFragments F T cfg n prims w h off k s) idx = f"
  shows "\<exists>x y sB. int k < n \<and> y * w + x = idx
           \<and> in_box (getAABBForTriangle T (triangle_of (prims (int k))) w h) x y
           \<and> state_at_pixel F T cfg (prims (int k)) w h off
               (getAABBForTriangle T (triangle_of (prims (int k))) w h) x y s = Continue sB
           \<and> wins_depth_test F T (prims (int k)) w h off (snd sB) x y
           \<and> f = new_Fragment T cfg (prims (int k)) off x y"
proof -
  let ?tb = "getAABBForTriangle T (triangle_of (prims (int k))) w h"
  let ?p = "prims (int k)"
  let ?Q = "\<lambda>t :: (int \<Rightarrow> Fragment) \<times> (int \<Rightarrow> int). fst t idx = f"
  have k: "int k < n"
  proof (rule ccontr)
    assume "\<not> int k < n"
    with assms show False by (simp add: generateFragments_def)
  qed
  from assms(2) k have "?Q (flow_state (for_loop (float_to_int (x3 (aabb_min ?tb))) (x3 (aabb_max ?tb))
                             (column_loop F T cfg ?p w h off ?tb) s))"
    by (simp add: generateFragments_def Let_def)
  from for_loop_transition [where Q = ?Q, OF assms(1) this] obtain x sA where
    x: "float_to_int (x3 (aabb_min ?tb)) \<le> x" "real_of_int x < x3 (aabb_max ?tb)"
       "for_loop (float_to_int (x3 (aabb_min ?tb))) (real_of_int x) (column_loop F T cfg ?p w h off ?tb) s
          = Continue sA"
       "fst sA idx \<noteq> f" "fst (flow_state (column_loop F T cfg ?p w h off ?tb x sA)) idx = f" by blast
  from x(5) have "?Q (flow_state (for_loop (float_to_int (y3 (aabb_min ?tb))) (y3 (aabb_max ?tb))
                             (\<lambda>y. fragment_pixel F T cfg ?p w h off x y) sA))"
    by (simp add: column_loop_def)
  from for_loop_transition [where Q = ?Q, OF x(4) this] obtain y sB where
    y: "float_to_int (y3 (aabb_min ?tb)) \<le> y" "real_of_int y < y3 (aabb_max ?tb)"
       "for_loop (float_to_int (y3 (aabb_min ?tb))) (real_of_int y) (\<lambda>y. fragment_pixel F T cfg ?p w h off x y) sA
          = Continue sB"
       "fst sB idx \<noteq> f" "fst (flow_state (fragment_pixel F T cfg ?p w h off x y sB)) idx = f" by blast
  have box: "in_box ?tb x y" using x(1,2) y(1,2) by (simp add: in_box_def)
  have at: "state_at_pixel F T cfg ?p w h off ?tb x y s = Continue sB"
    by (simp add: state_at_pixel_def x(3) y(3))
  from fragment_pixel_write [OF y(4,5)]
  have "wins_depth_test F T ?p w h off (snd sB) x y" "y * w + x = idx" "f = new_Fragment T cfg ?p off x y"
    by simp_all
  with k box at show ?thesis by blast
qed

lemma state_at_pixel_depth_le:
  assumes "state_at_pixel F T cfg p w h off tb x y s = Continue sB"
  shows "snd sB i \<le> snd s i"
proof (cases "for_loop (float_to_int (x3 (aabb_min tb))) (real_of_int x) (column_loop F T cfg p w h off tb) s")
  case (Return s')
  with assms show ?thesis by (simp add: state_at_pixel_def)
next
  case (Continue sA)
  let ?P = "\<lambda>t :: (int \<Rightarrow> Fragment) \<times> (int \<Rightarrow> int). snd t i \<le> snd s i"
  have pix: "?P (flow_state (fragment_pixel F T cfg p w h off x' y' t))" if "?P t" for x' y' t
    using fragment_pixel_depth_le [of F T cfg p w h off x' y' t i] that by linarith
  have "?P (flow_state (for_loop (float_to_int (x3 (aabb_min tb))) (real_of_int x)
                (column_loop F T cfg p w h off tb) s))"
    by (rule for_loop_inv [where P = ?P, OF column_loop_inv [where P = ?P, OF pix]]) simp_all
  then have a: "?P sA" unfolding Continue by simp
  have "?P (flow_state (for_loop (float_to_int (y3 (aabb_min tb))) (real_of_int y)
                (\<lambda>y'. fragment_pixel F T cfg p w h off x y') sA))"
    by (rule for_loop_inv [where P = ?P, OF pix a])
  moreover from assms Continue
  have "for_loop (float_to_int (y3 (aabb_min tb))) (real_of_int y)
          (\<lambda>y'. fragment_pixel F T cfg p w h off x y') sA = Continue sB"
    by (simp add: state_at_pixel_def)
  ultimately show ?thesis by simp
qed

lemma sample_loop_snoc:
  "sample_loop F T cfg n prims w h (passes @ [(off, sched2, schedP, schedR)]) st
     = sample_pass F T cfg n prims w h off sched2 schedP schedR (sample_loop F T cfg n prims w h passes st)"
  by (simp add: sample_loop_def)

lemma sample_pass_fragments:
  assumes "0 < w" and "w < 2 ^ 31" and "0 < h" and "h < 2 ^ 31"
    and "0 \<le> idx" and "idx < w * h" and "set (grid2d w h) \<subseteq> set sched2"
  shows "fst (sample_pass F T cfg n prims w h off sched2 [] schedR st) idx = zero_Fragment
       \<and> fst (snd (sample_pass F T cfg n prims w h off sched2 [] schedR st)) idx = INT_MAX
       \<and> (fst (sample_pass F T cfg n prims w h off sched2 schedP schedR st) idx \<noteq> zero_Fragment \<longrightarrow>
            (\<exists>s1 k s2 x y sB.
               schedP = s1 @ k # s2 \<and> int k < n \<and> y * w + x = idx
             \<and> in_box (getAABBForTriangle T (triangle_of (prims (int k))) w h) x y
             \<and> state_at_pixel F T cfg (prims (int k)) w h off
                 (getAABBForTriangle T (triangle_of (prims (int k))) w h) x y
                 (raster_stage F T cfg n prims w h off sched2 s1 (fst st, fst (snd st))) = Continue sB
             \<and> snd sB idx \<le> INT_MAX
             \<and> wins_depth_test F T (prims (int k)) w h off (snd sB) x y
             \<and> fst (sample_pass F T cfg n prims w h off sched2 schedP schedR st) idx
                 = new_Fragment T cfg (prims (int k)) off x y))"
proof -
  let ?s0 = "(memset_fragmentBuffer w h (fst st), run_threads (initDepth w h) sched2 (fst (snd st)))"
  let ?gen = "generateFragments F T cfg n prims w h off"
  have z: "fst ?s0 idx = zero_Fragment" using assms(5,6) by (simp add: memset_fragmentBuffer_def)
  have d: "snd ?s0 idx = INT_MAX" using initDepth_all [OF assms, of "fst (snd st)"] by simp
  have stage: "raster_stage F T cfg n prims w h off sched2 sp (fst st, fst (snd st)) = run_threads ?gen sp ?s0" for sp
    by (simp add: raster_stage_def Let_def)
  have pass: "fst (sample_pass F T cfg n prims w h off sched2 sp schedR st) = fst (run_threads ?gen sp ?s0)"
    "fst (snd (sample_pass F T cfg n prims w h off sched2 sp schedR st)) = snd (run_threads ?gen sp ?s0)" for sp
    by (simp_all add: sample_pass_def raster_stage_def Let_def)
  show ?thesis
  proof (intro conjI impI)
    show "fst (sample_pass F T cfg n prims w h off sched2 [] schedR st) idx = zero_Fragment"
      unfolding pass using z by (simp add: run_threads_def)
  next
    show "fst (snd (sample_pass F T cfg n prims w h off sched2 [] schedR st)) idx = INT_MAX"
      unfolding pass using d by (simp add: run_threads_def)
  next
    let ?f = "fst (run_threads ?gen schedP ?s0) idx"
    let ?Q = "\<lambda>t :: (int \<Rightarrow> Fragment) \<times> (int \<Rightarrow> int). fst t idx = ?f"
    assume "fst (sample_pass F T cfg n prims w h off sched2 schedP schedR st) idx \<noteq> zero_Fragment"
    then have "\<not> ?Q ?s0" unfolding pass using z by simp
    from run_threads_transition [where Q = ?Q and body = ?gen, OF this] obtain s1 k s2 where
      s: "schedP = s1 @ k # s2" "fst (run_threads ?gen s1 ?s0) idx \<noteq> ?f"
         "fst (?gen k (run_threads ?gen s1 ?s0)) idx = ?f" by blast
    from generateFragments_transition [OF s(2,3)] obtain x y sB where
      w: "int k < n" "y * w + x = idx"
         "in_box (getAABBForTriangle T (triangle_of (prims (int k))) w h) x y"
         "state_at_pixel F T cfg (prims (int k)) w h off
            (getAABBForTriangle T (triangle_of (prims (int k))) w h) x y (run_threads ?gen s1 ?s0) = Continue sB"
         "wins_depth_test F T (prims (int k)) w h off (snd sB) x y"
         "?f = new_Fragment T cfg (prims (int k)) off x y" by blast
    have "snd sB idx \<le> snd (run_threads ?gen s1 ?s0) idx" by (rule state_at_pixel_depth_le [OF w(4)])
    also have "\<dots> \<le> snd ?s0 idx" by (rule run_generateFragments_depth_le)
    finally have le: "snd sB idx \<le> INT_MAX" unfolding d .
    from s(1) w(1,2,3) w(4) [folded stage] le w(5) w(6)
    show "\<exists>s1 k s2 x y sB.
               schedP = s1 @ k # s2 \<and> int k < n \<and> y * w + x = idx
             \<and> in_box (getAABBForTriangle T (triangle_of (prims (int k))) w h) x y
             \<and> state_at_pixel F T cfg (prims (int k)) w h off
                 (getAABBForTriangle T (triangle_of (prims (int k))) w h) x y
                 (raster_stage F T cfg n prims w h off sched2 s1 (fst st, fst (snd st))) = Continue sB
             \<and> snd sB idx \<le> INT_MAX
             \<and> wins_depth_test F T (prims (int k)) w h off (snd sB) x y
             \<and> fst (sample_pass F T cfg n prims w h off sched2 schedP schedR st) idx
                 = new_Fragment T cfg (prims (int k)) off x y"
      unfolding pass by blast
  qed
qed

text \<open>
  C10: the sample loop after any number of passes \<open>passes\<close> and one more pass, with the
  offset \<open>off\<close>, the workers \<open>schedP\<close> and a launch of \<open>initDepth\<close> that covers the image.
  Whatever the earlier passes left, before the first worker of this pass the fragment
  of every pixel is the all-zero fragment and its depth entry is INT_MAX. After the pass,
  the fragment of a pixel differs from the all-zero fragment only if a worker \<open>k\<close> of this
  pass won the depth test for that pixel: after the workers \<open>s1\<close> of this pass that took
  effect before it, this worker arrived at a pixel \<open>(x, y)\<close> of its bounding box with that
  index, found there the buffers \<open>sB\<close>, whose depth entry descends from the INT_MAX of this
  pass, passed the depth test on them, and the fragment of the pixel is the one that it
  stored.
\<close>

theorem fragments_only_from_this_pass:
  assumes "0 < w" and "w < 2 ^ 31" and "0 < h" and "h < 2 ^ 31"
    and "0 \<le> idx" and "idx < w * h" and "set (grid2d w h) \<subseteq> set sched2"
  shows "fst (sample_loop F T cfg n prims w h (passes @ [(off, sched2, [], schedR)]) st) idx = zero_Fragment
       \<and> fst (snd (sample_loop F T cfg n prims w h (passes @ [(off, sched2, [], schedR)]) st)) idx = INT_MAX
       \<and> (fst (sample_loop F T cfg n prims w h (passes @ [(off, sched2, schedP, schedR)]) st) idx
             \<noteq> zero_Fragment \<longrightarrow>
            (\<exists>s1 k s2 x y sB.
               schedP = s1 @ k # s2 \<and> int k < n \<and> y * w + x = idx
             \<and> in_box (getAABBForTriangle T (triangle_of (prims (int k))) w h) x y
             \<and> state_at_pixel F T cfg (prims (int k)) w h off
                 (getAABBForTriangle T (triangle_of (prims (int k))) w h) x y
                 (raster_stage F T cfg n prims w h off sched2 s1
                    (fst (sample_loop F T cfg n prims w h passes st),
                     fst (snd (sample_loop F T cfg n prims w h passes st)))) = Continue sB
             \<and> snd sB idx \<le> INT_MAX
             \<and> wins_depth_test F T (prims (int k)) w h off (snd sB) x y
             \<and> fst (sample_loop F T cfg n prims w h (passes @ [(off, sched2, schedP, schedR)]) st) idx
                 = new_Fragment T cfg (prims (int k)) off x y))"
  unfolding sample_loop_snoc by (rule sample_pass_fragments [OF assms])

lemma big_triangle_tri:
  "triangle_of big_triangle = [Vec3 0 0 (1 / 1024), Vec3 8 0 (1 / 1024), Vec3 0 8 (1 / 1024)]"
  by (simp add: triangle_of_def big_triangle_def screen_vertex_def vec3_of_vec4_def)

lemma big_triangle_bary:
  "calculateBarycentricCoordinate image_tools (triangle_of big_triangle) (Vec2 a b)
     = Vec3 (1 - a / 8 - b / 8) (a / 8) (b / 8)"
  by (simp add: big_triangle_tri image_tools_def calculateSignedArea_def Let_def)

lemma big_triangle_covers:
  "covers image_tools big_triangle (Vec2 0 0) x y \<longleftrightarrow> 0 \<le> x \<and> 0 \<le> y \<and> x + y \<le> 8"
proof -
  have "covers image_tools big_triangle (Vec2 0 0) x y
          \<longleftrightarrow> 0 \<le> 1 - real_of_int x / 8 - real_of_int y / 8 \<and> 0 \<le> real_of_int x / 8 \<and> 0 \<le> real_of_int y / 8"
    unfolding covers_def by (simp add: big_triangle_bary) (simp add: image_tools_def)
  also have "\<dots> \<longleftrightarrow> 0 \<le> x \<and> 0 \<le> y \<and> x + y \<le> 8"
    by auto
  finally show ?thesis .
qed

lemma big_triangle_getZ:
  "getZAtCoordinate image_tools (Vec3 (1 - a / 8 - b / 8) (a / 8) (b / 8)) (triangle_of big_triangle) = 1024"
proof -
  have "(1 - a / 8 - b / 8) * c + a / 8 * c + b / 8 * c = c" for c :: real
    by (simp add: algebra_simps)
  from this [of "1 / (1 / 1024)"] show ?thesis
    by (simp add: image_tools_def big_triangle_tri)
qed

lemma big_triangle_depth:
  "encoded_depth single_precision image_tools big_triangle (Vec2 0 0) x y = 2097152"
  unfolding encoded_depth_def by (simp add: big_triangle_bary big_triangle_getZ single_precision_def)

lemma big_triangle_box:
  "getAABBForTriangle image_tools (triangle_of big_triangle) 2 2
     = \<lparr>aabb_min = Vec3 0 0 0, aabb_max = Vec3 2 2 0\<rparr>"
  by (simp add: image_tools_def big_triangle_tri)

lemma round_to_float_exact: "round_to_float 2097152 = 2097152"
proof -
  have "excess_bits 2097152 = 0" by (subst excess_bits.simps) simp
  then show ?thesis by (simp add: round_to_float_def Let_def)
qed

lemma big_triangle_wins:
  assumes "0 \<le> x" and "0 \<le> y" and "x + y \<le> 8" and "y * 2 + x \<le> 4" and "2097152 \<le> db (y * 2 + x)"
  shows "wins_depth_test single_precision image_tools big_triangle 2 2 (Vec2 0 0) db x y"
proof (rule minimum_holder_wins)
  show "covers image_tools big_triangle (Vec2 0 0) x y" using assms(1-3) by (simp add: big_triangle_covers)
  show "y * 2 + x \<le> 2 * 2" using assms(4) by simp
  show "float_as_int single_precision (encoded_depth single_precision image_tools big_triangle (Vec2 0 0) x y)
          \<le> db (y * 2 + x)"
    unfolding big_triangle_depth using assms(5) by (simp add: single_precision_def float_to_int_def)
  show "int_as_float single_precision
          (float_as_int single_precision (encoded_depth single_precision image_tools big_triangle (Vec2 0 0) x y))
        = encoded_depth single_precision image_tools big_triangle (Vec2 0 0) x y"
    unfolding big_triangle_depth by (simp add: single_precision_def float_to_int_def round_to_float_exact)
qed

lemma big_triangle_pixel:
  assumes "0 \<le> x" and "0 \<le> y" and "x + y \<le> 8" and "y * 2 + x \<le> 4" and "2097152 \<le> db (y * 2 + x)"
  shows "fragment_pixel single_precision image_tools source_config big_triangle 2 2 (Vec2 0 0) x y (fb, db)
           = Continue (fb(y * 2 + x := new_Fragment image_tools source_config big_triangle (Vec2 0 0) x y),
                       db(y * 2 + x := 2097152))"
proof -
  have "covers image_tools big_triangle (Vec2 0 0) x y" using assms(1-3) by (simp add: big_triangle_covers)
  moreover have "\<not> y * 2 + x > 2 * 2" using assms(4) by simp
  moreover have "atomicMin db (y * 2 + x)
                   (float_as_int single_precision (encoded_depth single_precision image_tools big_triangle (Vec2 0 0) x y))
                 = db(y * 2 + x := 2097152)"
    unfolding big_triangle_depth
    using assms(5) by (simp add: single_precision_def float_to_int_def atomicMin_def min_def)
  ultimately show ?thesis
    using big_triangle_wins [of x y db, OF assms] by (simp add: fragment_pixel_cases)
qed

lemma big_triangle_worker:
  "generateFragments single_precision image_tools source_config 1 big_triangle_buffer 2 2 (Vec2 0 0) 0 cleared
     = after_big_triangle"
proof -
  let ?tb = "\<lparr>aabb_min = Vec3 0 0 0, aabb_max = Vec3 2 2 0\<rparr>"
  let ?pix = "fragment_pixel single_precision image_tools source_config big_triangle 2 2 (Vec2 0 0)"
  let ?col = "column_loop single_precision image_tools source_config big_triangle 2 2 (Vec2 0 0) ?tb"
  let ?f = "new_Fragment image_tools source_config big_triangle (Vec2 0 0)"
  let ?s0 = "(\<lambda>i::int. zero_Fragment, \<lambda>i::int. INT_MAX)"
  let ?s1 = "((\<lambda>i::int. zero_Fragment)(0 := ?f 0 0), (\<lambda>i::int. INT_MAX)(0 := 2097152))"
  let ?s2 = "((\<lambda>i::int. zero_Fragment)(0 := ?f 0 0, 2 := ?f 0 1), (\<lambda>i::int. INT_MAX)(0 := 2097152, 2 := 2097152))"
  let ?s3 = "((\<lambda>i::int. zero_Fragment)(0 := ?f 0 0, 2 := ?f 0 1, 1 := ?f 1 0),
              (\<lambda>i::int. INT_MAX)(0 := 2097152, 2 := 2097152, 1 := 2097152))"
  let ?s4 = "((\<lambda>i::int. zero_Fragment)(0 := ?f 0 0, 2 := ?f 0 1, 1 := ?f 1 0, 3 := ?f 1 1),
              (\<lambda>i::int. INT_MAX)(0 := 2097152, 2 := 2097152, 1 := 2097152, 3 := 2097152))"
  have p0: "?pix 0 0 ?s0 = Continue ?s1" by (simp add: big_triangle_pixel INT_MAX_def)
  have p1: "?pix 0 1 ?s1 = Continue ?s2" by (simp add: big_triangle_pixel INT_MAX_def)
  have p2: "?pix 1 0 ?s2 = Continue ?s3" by (simp add: big_triangle_pixel INT_MAX_def)
  have p3: "?pix 1 1 ?s3 = Continue ?s4" by (simp add: big_triangle_pixel INT_MAX_def)
  have "for_loop 0 2 (?pix 0) ?s0 = for_loop 1 2 (?pix 0) ?s1"
    using for_loop_Continue [of 0 2 "?pix 0" ?s0 ?s1] p0 by simp
  also have "\<dots> = for_loop 2 2 (?pix 0) ?s2"
    using for_loop_Continue [of 1 2 "?pix 0" ?s1 ?s2] p1 by simp
  also have "\<dots> = Continue ?s2" by (simp add: for_loop_done)
  finally have c0: "?col 0 ?s0 = Continue ?s2" by (simp add: column_loop_def float_to_int_def)
  have "for_loop 0 2 (?pix 1) ?s2 = for_loop 1 2 (?pix 1) ?s3"
    using for_loop_Continue [of 0 2 "?pix 1" ?s2 ?s3] p2 by simp
  also have "\<dots> = for_loop 2 2 (?pix 1) ?s4"
    using for_loop_Continue [of 1 2 "?pix 1" ?s3 ?s4] p3 by simp
  also have "\<dots> = Continue ?s4" by (simp add: for_loop_done)
  finally have c1: "?col 1 ?s2 = Continue ?s4" by (simp add: column_loop_def float_to_int_def)
  have "for_loop 0 2 ?col ?s0 = for_loop 1 2 ?col ?s2"
    using for_loop_Continue [of 0 2 ?col ?s0 ?s2] c0 by simp
  also have "\<dots> = for_loop 2 2 ?col ?s4"
    using for_loop_Continue [of 1 2 ?col ?s2 ?s4] c1 by simp
  also have "\<dots> = Continue ?s4" by (simp add: for_loop_done)
  finally show ?thesis
    by (simp add: generateFragments_def big_triangle_box float_to_int_def big_triangle_buffer_def
          cleared_def after_big_triangle_def)
qed


text \<open>
  C6: in one sample pass, whatever the buffers held before, every entry of the depth
  buffer is INT_MAX once \<open>initDepth\<close> has run and no worker yet; the workers change it by
  \<open>atomicMin\<close> only, so that an entry never increases: not by one atomic minimum, not by
  one pixel of a worker, and not by the workers \<open>s2\<close> that take effect after the workers
  \<open>s1\<close>; it stays at or below INT_MAX.
\<close>

theorem depth_buffer_non_increasing:
  assumes "0 < w" and "w < 2 ^ 31" and "0 < h" and "h < 2 ^ 31"
    and "0 \<le> i" and "i < w * h" and "set (grid2d w h) \<subseteq> set sched2"
  shows "snd (raster_stage F T cfg n prims w h off sched2 [] bufs) i = INT_MAX
       \<and> snd (raster_stage F T cfg n prims w h off sched2 (s1 @ s2) bufs) i
           \<le> snd (raster_stage F T cfg n prims w h off sched2 s1 bufs) i
       \<and> snd (raster_stage F T cfg n prims w h off sched2 s1 bufs) i \<le> INT_MAX
       \<and> snd (flow_state (fragment_pixel F T cfg p w h off x y s)) i \<le> snd s i
       \<and> atomicMin db j val i \<le> db i"
proof -
  let ?s0 = "(memset_fragmentBuffer w h (fst bufs), run_threads (initDepth w h) sched2 (snd bufs))"
  let ?gen = "generateFragments F T cfg n prims w h off"
  have init: "snd ?s0 i = INT_MAX"
    using initDepth_all [OF assms, of "snd bufs"] by simp
  have st: "raster_stage F T cfg n prims w h off sched2 sp bufs = run_threads ?gen sp ?s0" for sp
    by (simp add: raster_stage_def Let_def)
  have a: "snd (raster_stage F T cfg n prims w h off sched2 [] bufs) i = INT_MAX"
    unfolding st using init by (simp add: run_threads_def)
  have b: "snd (raster_stage F T cfg n prims w h off sched2 (s1 @ s2) bufs) i
           \<le> snd (raster_stage F T cfg n prims w h off sched2 s1 bufs) i"
    unfolding st run_threads_append by (rule run_generateFragments_depth_le)
  have "snd (run_threads ?gen s1 ?s0) i \<le> snd ?s0 i"
    by (rule run_generateFragments_depth_le)
  then have c: "snd (raster_stage F T cfg n prims w h off sched2 s1 bufs) i \<le> INT_MAX"
    unfolding st init .
  from a b c fragment_pixel_depth_le [of F T cfg p w h off x y s i] atomicMin_le [of db j val i]
  show ?thesis by blast
qed

lemma initDepth_cleared: "run_threads (initDepth w h) sched (\<lambda>i. INT_MAX) = (\<lambda>i. INT_MAX)"
proof (induction sched rule: rev_induct)
  case Nil
  show ?case by (simp add: run_threads_def)
next
  case (snoc t ts)
  show ?case unfolding run_threads_snoc snoc by (rule ext) (simp add: initDepth_apply)
qed

lemma raster_stage_cleared:
  "raster_stage F T cfg n prims w h off sched2 schedP cleared
     = run_threads (generateFragments F T cfg n prims w h off) schedP cleared"
proof -
  have "memset_fragmentBuffer w h (\<lambda>i. zero_Fragment) = (\<lambda>i. zero_Fragment)"
    by (rule ext) (simp add: memset_fragmentBuffer_def)
  then show ?thesis
    by (simp add: raster_stage_def Let_def cleared_def initDepth_cleared)
qed

lemma big_triangle_stage:
  "raster_stage single_precision image_tools source_config 1 big_triangle_buffer 2 2 (Vec2 0 0) sched2 [0] cleared
     = after_big_triangle"
  "raster_stage single_precision image_tools source_config 1 big_triangle_buffer 2 2 (Vec2 0 0) sched2 [] cleared
     = cleared"
  unfolding raster_stage_cleared
  by (simp_all add: run_threads_def big_triangle_worker)

theorem depth_buffer_non_increasing_witness:
  "(0::int) < 2 \<and> (2::int) < 2 ^ 31 \<and> (0::int) \<le> 0 \<and> (0::int) < 2 * 2
   \<and> set (grid2d 2 2) \<subseteq> set (grid2d 2 2)
   \<and> snd (raster_stage single_precision image_tools source_config 1 big_triangle_buffer 2 2 (Vec2 0 0)
            (grid2d 2 2) [] cleared) 0
       = INT_MAX
   \<and> snd (raster_stage single_precision image_tools source_config 1 big_triangle_buffer 2 2 (Vec2 0 0)
            (grid2d 2 2) ([] @ [0]) cleared) 0
       \<le> snd (raster_stage single_precision image_tools source_config 1 big_triangle_buffer 2 2 (Vec2 0 0)
                (grid2d 2 2) [] cleared) 0
   \<and> snd (raster_stage single_precision image_tools source_config 1 big_triangle_buffer 2 2 (Vec2 0 0)
            (grid2d 2 2) [0] cleared) 0 = 2097152"
proof -
  have enc: "snd (raster_stage single_precision image_tools source_config 1 big_triangle_buffer 2 2 (Vec2 0 0)
                    (grid2d 2 2) [0] cleared) 0 = 2097152"
    unfolding big_triangle_stage by (simp add: after_big_triangle_def)
  from depth_buffer_non_increasing [of 2 2 0 "grid2d 2 2" single_precision image_tools source_config 1
         big_triangle_buffer "Vec2 0 0" cleared "[]" "[0]" big_triangle 0 0 cleared "snd cleared" 0 5] enc
  show ?thesis by (simp add: INT_MAX_def)
qed

theorem fragments_only_from_this_pass_witness:
  "(0::int) < 2 \<and> (2::int) < 2 ^ 31 \<and> (0::int) \<le> 0 \<and> (0::int) < 2 * 2
   \<and> set (grid2d 2 2) \<subseteq> set (grid2d 2 2)
   \<and> fst (sample_loop single_precision image_tools source_config 1 big_triangle_buffer 2 2
            ([] @ [(Vec2 0 0, grid2d 2 2, [], grid2d 2 2)]) (fst after_big_triangle, snd after_big_triangle, dark)) 0
       = zero_Fragment
   \<and> fst (snd (sample_loop single_precision image_tools source_config 1 big_triangle_buffer 2 2
            ([] @ [(Vec2 0 0, grid2d 2 2, [], grid2d 2 2)]) (fst after_big_triangle, snd after_big_triangle, dark))) 0
       = INT_MAX
   \<and> eyeNormal (fst (sample_loop single_precision image_tools source_config 1 big_triangle_buffer 2 2
                       ([] @ [(Vec2 0 0, grid2d 2 2, [0], grid2d 2 2)])
                       (fst cleared, snd cleared, dark)) 0) = Vec3 0 0 1
   \<and> (\<exists>s1 k s2 x y sB.
          [0] = s1 @ k # s2 \<and> int k < 1 \<and> y * 2 + x = 0
        \<and> in_box (getAABBForTriangle image_tools (triangle_of (big_triangle_buffer (int k))) 2 2) x y
        \<and> state_at_pixel single_precision image_tools source_config (big_triangle_buffer (int k)) 2 2 (Vec2 0 0)
            (getAABBForTriangle image_tools (triangle_of (big_triangle_buffer (int k))) 2 2) x y
            (raster_stage single_precision image_tools source_config 1 big_triangle_buffer 2 2 (Vec2 0 0)
               (grid2d 2 2) s1 cleared) = Continue sB
        \<and> snd sB 0 \<le> INT_MAX
        \<and> wins_depth_test single_precision image_tools (big_triangle_buffer (int k)) 2 2 (Vec2 0 0) (snd sB) x y
        \<and> fst (sample_loop single_precision image_tools source_config 1 big_triangle_buffer 2 2
                 ([] @ [(Vec2 0 0, grid2d 2 2, [0], grid2d 2 2)])
                 (fst cleared, snd cleared, dark)) 0
            = new_Fragment image_tools source_config (big_triangle_buffer (int k)) (Vec2 0 0) x y)"
proof -
  let ?r = "sample_loop single_precision image_tools source_config 1 big_triangle_buffer 2 2
                       ([] @ [(Vec2 0 0, grid2d 2 2, [0], grid2d 2 2)])
                       (fst cleared, snd cleared, dark)"
  have r: "fst ?r = fst after_big_triangle"
    by (simp add: sample_loop_def sample_pass_def Let_def big_triangle_stage)
  have "new_Fragment image_tools source_config big_triangle (Vec2 0 0) 0 0
          = \<lparr>eyeNormal = Vec3 0 0 1, UV = Vec2 0 0, Fragment.diffuseTexture = None,
              Fragment.texWidth = 0, Fragment.texHeight = 0\<rparr>"
    unfolding new_Fragment_def
    by (simp add: big_triangle_bary Let_def)
       (simp add: big_triangle_def screen_vertex_def interpolateBarycentric3_def interpolatePerspective_def
          vec3_add_def vec3_scale_def vec2_add_def vec2_scale_def source_config_def)
  then have n: "eyeNormal (fst ?r 0) = Vec3 0 0 1"
    unfolding r by (simp add: after_big_triangle_def)
  then have nz: "fst ?r 0 \<noteq> zero_Fragment"
    by (auto simp: zero_Fragment_def)
  have st: "sample_loop single_precision image_tools source_config 1 big_triangle_buffer 2 2 []
              (fst cleared, snd cleared, dark) = (fst cleared, snd cleared, dark)"
    by (simp add: sample_loop_def)
  from fragments_only_from_this_pass
         [where w = 2 and h = 2 and idx = 0 and ?sched2.0 = "grid2d 2 2" and F = single_precision
            and T = image_tools and cfg = source_config and n = 1 and prims = big_triangle_buffer
            and passes = "[]" and off = "Vec2 0 0" and schedR = "grid2d 2 2"
            and st = "(fst after_big_triangle, snd after_big_triangle, dark)" and schedP = "[]"]
  have a: "fst (sample_loop single_precision image_tools source_config 1 big_triangle_buffer 2 2
            ([] @ [(Vec2 0 0, grid2d 2 2, [], grid2d 2 2)]) (fst after_big_triangle, snd after_big_triangle, dark)) 0
       = zero_Fragment
   \<and> fst (snd (sample_loop single_precision image_tools source_config 1 big_triangle_buffer 2 2
            ([] @ [(Vec2 0 0, grid2d 2 2, [], grid2d 2 2)]) (fst after_big_triangle, snd after_big_triangle, dark))) 0
       = INT_MAX"
    by simp
  from fragments_only_from_this_pass
         [where w = 2 and h = 2 and idx = 0 and ?sched2.0 = "grid2d 2 2" and F = single_precision
            and T = image_tools and cfg = source_config and n = 1 and prims = big_triangle_buffer
            and passes = "[]" and off = "Vec2 0 0" and schedR = "grid2d 2 2"
            and st = "(fst cleared, snd cleared, dark)" and schedP = "[0]"] nz
  have "\<exists>s1 k s2 x y sB.
          [0] = s1 @ k # s2 \<and> int k < 1 \<and> y * 2 + x = 0
        \<and> in_box (getAABBForTriangle image_tools (triangle_of (big_triangle_buffer (int k))) 2 2) x y
        \<and> state_at_pixel single_precision image_tools source_config (big_triangle_buffer (int k)) 2 2 (Vec2 0 0)
            (getAABBForTriangle image_tools (triangle_of (big_triangle_buffer (int k))) 2 2) x y
            (raster_stage single_precision image_tools source_config 1 big_triangle_buffer 2 2 (Vec2 0 0)
               (grid2d 2 2) s1 cleared) = Continue sB
        \<and> snd sB 0 \<le> INT_MAX
        \<and> wins_depth_test single_precision image_tools (big_triangle_buffer (int k)) 2 2 (Vec2 0 0) (snd sB) x y
        \<and> fst ?r 0 = new_Fragment image_tools source_config (big_triangle_buffer (int k)) (Vec2 0 0) x y"
    unfolding st by simp
  with a n show ?thesis by simp
qed

section \<open>Properties of the scene buffer setup\<close>

lemma bind_err_simps [simp]:
  "bind_err (Inl e) f = Inl e"
  "bind_err (Inr x) f = f x"
  by (simp_all add: bind_err_def)

lemma primitives_loop_append:
  "primitives_loop scene ptrs uninit mn (xs @ ys) st =
     bind_err (primitives_loop scene ptrs uninit mn xs st) (\<lambda>r.
       case r of Return st' \<Rightarrow> Inr (Return st')
               | Continue st' \<Rightarrow> primitives_loop scene ptrs uninit mn ys st')"
proof (induction xs arbitrary: st)
  case Nil
  show ?case by simp
next
  case (Cons x xs)
  show ?case
  proof (cases "process_primitive scene ptrs uninit mn x st")
    case (Inl e)
    then show ?thesis by simp
  next
    case (Inr r)
    then show ?thesis by (cases r) (simp_all add: Cons)
  qed
qed

lemma meshes_loop_append:
  "meshes_loop scene ptrs uninit (xs @ ys) st =
     bind_err (meshes_loop scene ptrs uninit xs st) (\<lambda>r.
       case r of Return st' \<Rightarrow> Inr (Return st')
               | Continue st' \<Rightarrow> meshes_loop scene ptrs uninit ys st')"
proof (induction xs arbitrary: st)
  case Nil
  show ?case by simp
next
  case (Cons x xs)
  show ?case
  proof (cases "at_key (meshes scene) x")
    case (Inl e)
    then show ?thesis by simp
  next
    case mesh: (Inr mesh)
    let ?st = "st\<lparr>mesh2PrimitivesMap :=
                      (if mesh2PrimitivesMap st (name mesh) = None
                       then (mesh2PrimitivesMap st)(name mesh \<mapsto> []) else mesh2PrimitivesMap st)\<rparr>"
    show ?thesis
    proof (cases "primitives_loop scene ptrs uninit (name mesh) (primitives mesh) ?st")
      case (Inl e)
      with mesh show ?thesis by simp
    next
      case (Inr r)
      with mesh show ?thesis by (cases r) (simp_all add: Cons)
    qed
  qed
qed

lemma nodes_loop_append:
  "nodes_loop scene ptrs uninit (xs @ ys) st =
     bind_err (nodes_loop scene ptrs uninit xs st) (\<lambda>r.
       case r of Return st' \<Rightarrow> Inr (Return st')
               | Continue st' \<Rightarrow> nodes_loop scene ptrs uninit ys st')"
proof (induction xs arbitrary: st)
  case Nil
  show ?case by simp
next
  case (Cons x xs)
  obtain node ms where x: "x = (node, ms)" by (cases x)
  show ?case
  proof (cases "meshes_loop scene ptrs uninit ms st")
    case (Inl e)
    with x show ?thesis by simp
  next
    case (Inr r)
    with x show ?thesis by (cases r) (simp_all add: Cons)
  qed
qed

lemma attributes_loop_heap:
  "attributes_loop scene ptrs as (n, heap) = Inr (n', heap') \<Longrightarrow>
   set heap \<subseteq> set heap' \<and> (PrimitivesBlock \<in> set heap' \<longrightarrow> PrimitivesBlock \<in> set heap)"
proof (induction as arbitrary: n heap)
  case Nil
  then show ?case by simp
next
  case (Cons a as)
  obtain attribute accessorName where a: "a = (attribute, accessorName)" by (cases a)
  from Cons(2) obtain accessor where acc: "at_key (accessors scene) accessorName = Inr accessor"
    unfolding a by (cases "at_key (accessors scene) accessorName") simp_all
  from Cons(2) obtain bv where bv: "at_key (map_of (bufferViews scene)) (bufferView accessor) = Inr bv"
    unfolding a by (cases "at_key (map_of (bufferViews scene)) (bufferView accessor)") (simp_all add: acc)
  from Cons(2) obtain dv where dv: "at_key (map_of ptrs) (bufferView accessor) = Inr dv"
    unfolding a by (cases "at_key (map_of ptrs) (bufferView accessor)") (simp_all add: acc bv)
  from Cons(2) have "attributes_loop scene ptrs as (count accessor, heap @ [AttributeBlock attribute]) = Inr (n', heap')"
    unfolding a by (simp add: acc bv dv split: if_splits)
  from Cons(1) [OF this] show ?case by simp
qed

lemma load_material_heap:
  "load_material scene m heap = Inr (t, tw, th, heap') \<Longrightarrow>
   set heap \<subseteq> set heap' \<and> (PrimitivesBlock \<in> set heap' \<longrightarrow> PrimitivesBlock \<in> set heap)"
  unfolding load_material_def
  by (cases "at_key (materials scene) m")
     (auto split: if_splits option.splits)

lemma process_primitive_frame:
  assumes "process_primitive scene ptrs uninit mn p st = Inr r"
  shows "dev_primitives_cells (flow_state r) = dev_primitives_cells st
         \<and> set (device_heap st) \<subseteq> set (device_heap (flow_state r))
         \<and> (PrimitivesBlock \<in> set (device_heap (flow_state r)) \<longrightarrow> PrimitivesBlock \<in> set (device_heap st))"
proof (cases "indices p = []")
  case True
  with assms show ?thesis by (auto simp: process_primitive_def)
next
  case False
  from assms False obtain ia where ia: "at_key (accessors scene) (indices p) = Inr ia"
    by (cases "at_key (accessors scene) (indices p)") (simp_all add: process_primitive_def)
  from assms False obtain bv where bv: "at_key (map_of (bufferViews scene)) (bufferView ia) = Inr bv"
    by (cases "at_key (map_of (bufferViews scene)) (bufferView ia)") (simp_all add: process_primitive_def ia)
  from assms False obtain dv where dv: "at_key (map_of ptrs) (bufferView ia) = Inr dv"
    by (cases "at_key (map_of ptrs) (bufferView ia)") (simp_all add: process_primitive_def ia bv)
  from assms False obtain nv heap2 where
    al: "attributes_loop scene ptrs (attributes p) (0, device_heap st @ [IndexBlock]) = Inr (nv, heap2)"
    by (cases "attributes_loop scene ptrs (attributes p) (0, device_heap st @ [IndexBlock])")
       (auto simp: process_primitive_def ia bv dv Let_def)
  from assms False obtain ht tw th heap3 where
    lm: "load_material scene (material p) (heap2 @ [VertexOutBlock]) = Inr (ht, tw, th, heap3)"
    by (cases "load_material scene (material p) (heap2 @ [VertexOutBlock])")
       (auto simp: process_primitive_def ia bv dv al Let_def)
  from attributes_loop_heap [OF al] load_material_heap [OF lm]
  have sub: "set (device_heap st) \<subseteq> set heap3
             \<and> (PrimitivesBlock \<in> set heap3 \<longrightarrow> PrimitivesBlock \<in> set (device_heap st))" by auto
  from assms False have "\<exists>st'. r = Continue st' \<and> dev_primitives_cells st' = dev_primitives_cells st
                            \<and> device_heap st' = heap3"
    by (auto simp: process_primitive_def ia bv dv al lm Let_def)
  with sub show ?thesis by auto
qed

lemma primitives_loop_frame:
  "primitives_loop scene ptrs uninit mn ps st = Inr r \<Longrightarrow>
   dev_primitives_cells (flow_state r) = dev_primitives_cells st
   \<and> set (device_heap st) \<subseteq> set (device_heap (flow_state r))
   \<and> (PrimitivesBlock \<in> set (device_heap (flow_state r)) \<longrightarrow> PrimitivesBlock \<in> set (device_heap st))"
proof (induction ps arbitrary: st)
  case Nil
  then show ?case by auto
next
  case (Cons p ps)
  from Cons(2) obtain r1 where r1: "process_primitive scene ptrs uninit mn p st = Inr r1"
    by (cases "process_primitive scene ptrs uninit mn p st") simp_all
  note f1 = process_primitive_frame [OF r1]
  show ?case
  proof (cases r1)
    case (Return s)
    with Cons(2) r1 have "r = Return s" by simp
    with f1 Return show ?thesis by simp
  next
    case (Continue s)
    with Cons(2) r1 have "primitives_loop scene ptrs uninit mn ps s = Inr r" by simp
    from Cons(1) [OF this] f1 Continue show ?thesis by auto
  qed
qed

lemma meshes_loop_frame:
  "meshes_loop scene ptrs uninit ms st = Inr r \<Longrightarrow>
   dev_primitives_cells (flow_state r) = dev_primitives_cells st
   \<and> set (device_heap st) \<subseteq> set (device_heap (flow_state r))
   \<and> (PrimitivesBlock \<in> set (device_heap (flow_state r)) \<longrightarrow> PrimitivesBlock \<in> set (device_heap st))"
proof (induction ms arbitrary: st)
  case Nil
  then show ?case by auto
next
  case (Cons m ms)
  from Cons(2) obtain mesh where mesh: "at_key (meshes scene) m = Inr mesh"
    by (cases "at_key (meshes scene) m") simp_all
  let ?st = "st\<lparr>mesh2PrimitivesMap :=
                      (if mesh2PrimitivesMap st (name mesh) = None
                       then (mesh2PrimitivesMap st)(name mesh \<mapsto> []) else mesh2PrimitivesMap st)\<rparr>"
  from Cons(2) mesh obtain r1 where r1: "primitives_loop scene ptrs uninit (name mesh) (primitives mesh) ?st = Inr r1"
    by (cases "primitives_loop scene ptrs uninit (name mesh) (primitives mesh) ?st") simp_all
  from primitives_loop_frame [OF r1]
  have f1: "dev_primitives_cells (flow_state r1) = dev_primitives_cells st
            \<and> set (device_heap st) \<subseteq> set (device_heap (flow_state r1))
            \<and> (PrimitivesBlock \<in> set (device_heap (flow_state r1)) \<longrightarrow> PrimitivesBlock \<in> set (device_heap st))"
    by simp
  show ?case
  proof (cases r1)
    case (Return s)
    with Cons(2) mesh r1 have "r = Return s" by simp
    with f1 Return show ?thesis by simp
  next
    case (Continue s)
    with Cons(2) mesh r1 have "meshes_loop scene ptrs uninit ms s = Inr r" by simp
    from Cons(1) [OF this] f1 Continue show ?thesis by auto
  qed
qed

lemma nodes_loop_frame:
  "nodes_loop scene ptrs uninit ns st = Inr r \<Longrightarrow>
   dev_primitives_cells (flow_state r) = dev_primitives_cells st
   \<and> set (device_heap st) \<subseteq> set (device_heap (flow_state r))
   \<and> (PrimitivesBlock \<in> set (device_heap (flow_state r)) \<longrightarrow> PrimitivesBlock \<in> set (device_heap st))"
proof (induction ns arbitrary: st)
  case Nil
  then show ?case by auto
next
  case (Cons n ns)
  obtain node ms where n: "n = (node, ms)" by (cases n)
  from Cons(2) obtain r1 where r1: "meshes_loop scene ptrs uninit ms st = Inr r1"
    unfolding n by (cases "meshes_loop scene ptrs uninit ms st") simp_all
  note f1 = meshes_loop_frame [OF r1]
  show ?case
  proof (cases r1)
    case (Return s)
    with Cons(2) r1 have "r = Return s" unfolding n by simp
    with f1 Return show ?thesis by simp
  next
    case (Continue s)
    with Cons(2) r1 have "nodes_loop scene ptrs uninit ns s = Inr r" unfolding n by simp
    from Cons(1) [OF this] f1 Continue show ?thesis by auto
  qed
qed

lemma copy_bufferViews_live:
  "copy_bufferViews scene vs (ptrs0, heap0) = Inr (ptrs, heap) \<Longrightarrow>
   snd ` set ptrs0 \<subseteq> set heap0 \<Longrightarrow>
   snd ` set ptrs \<subseteq> set heap \<and> (PrimitivesBlock \<in> set heap \<longrightarrow> PrimitivesBlock \<in> set heap0)"
proof (induction vs arbitrary: ptrs0 heap0)
  case Nil
  then show ?case by simp
next
  case (Cons kv vs)
  obtain key view where kv: "kv = (key, view)" by (cases kv)
  show ?case
  proof (cases "target view = 0")
    case True
    with Cons(2) have "copy_bufferViews scene vs (ptrs0, heap0) = Inr (ptrs, heap)"
      unfolding kv by simp
    from Cons(1) [OF this Cons(3)] show ?thesis .
  next
    case False
    from Cons(2) False obtain buf where buf: "at_key (buffers scene) (buffer view) = Inr buf"
      unfolding kv by (cases "at_key (buffers scene) (buffer view)") simp_all
    let ?p = "if map_of ptrs0 key = None then ptrs0 @ [(key, BufferViewBlock key)] else ptrs0"
    from Cons(2) False buf
    have "copy_bufferViews scene vs (?p, heap0 @ [BufferViewBlock key]) = Inr (ptrs, heap)"
      unfolding kv by simp
    moreover have "snd ` set ?p \<subseteq> set (heap0 @ [BufferViewBlock key])"
      using Cons(3) by auto
    ultimately have "snd ` set ptrs \<subseteq> set heap
        \<and> (PrimitivesBlock \<in> set heap \<longrightarrow> PrimitivesBlock \<in> set (heap0 @ [BufferViewBlock key]))"
      by (rule Cons(1))
    then show ?thesis by simp
  qed
qed

text \<open>
  C9: the setup has copied the buffer views (blocks \<open>ptrs\<close>) and processed, without error
  and without return, the nodes \<open>ns1\<close>, the meshes \<open>ms1\<close> of the next node and the
  primitives \<open>ps1\<close> of its next mesh, reaching the state \<open>sC\<close>; the next primitive \<open>p\<close> has an
  empty index list. Then \<open>rasterizeSetBuffers\<close> returns in the state \<open>sC\<close> and reports no
  error, whatever primitives \<open>ps2\<close>, meshes \<open>ms2\<close> and nodes \<open>ns2\<close> follow: they are not
  processed. The pointer \<open>dev_primitives\<close> is as it was before the call and no block was
  allocated for it, and every copy of a buffer view is still allocated.
\<close>

theorem empty_indices_returns_early:
  assumes "copy_bufferViews scene (bufferViews scene) ([], device_heap st) = Inr (ptrs, heap)"
    and "nodes_loop scene ptrs uninit ns1 (st\<lparr>totalNumPrimitives := 0, device_heap := heap\<rparr>) = Inr (Continue sA)"
    and "meshes_loop scene ptrs uninit ms1 sA = Inr (Continue sB)"
    and "meshes scene meshName = Some mesh"
    and "primitives mesh = ps1 @ p # ps2"
    and "primitives_loop scene ptrs uninit (name mesh) ps1
           (sB\<lparr>mesh2PrimitivesMap :=
                 (if mesh2PrimitivesMap sB (name mesh) = None
                  then (mesh2PrimitivesMap sB)(name mesh \<mapsto> []) else mesh2PrimitivesMap sB)\<rparr>) = Inr (Continue sC)"
    and "indices p = []"
  shows "rasterizeSetBuffers scene (ns1 @ (node, ms1 @ meshName # ms2) # ns2) uninit st = Inr sC
       \<and> dev_primitives_cells sC = dev_primitives_cells st
       \<and> (\<forall>kb \<in> set ptrs. snd kb \<in> set (device_heap sC))
       \<and> PrimitivesBlock \<notin> set (device_heap sC) - set (device_heap st)"
proof -
  let ?st0 = "st\<lparr>totalNumPrimitives := 0, device_heap := heap\<rparr>"
  let ?sB' = "sB\<lparr>mesh2PrimitivesMap :=
                 (if mesh2PrimitivesMap sB (name mesh) = None
                  then (mesh2PrimitivesMap sB)(name mesh \<mapsto> []) else mesh2PrimitivesMap sB)\<rparr>"
  have p: "process_primitive scene ptrs uninit (name mesh) p sC = Inr (Return sC)"
    using assms(7) by (simp add: process_primitive_def)
  have pl: "primitives_loop scene ptrs uninit (name mesh) (primitives mesh) ?sB' = Inr (Return sC)"
    unfolding assms(5) primitives_loop_append by (simp add: assms(6) p)
  have am: "at_key (meshes scene) meshName = Inr mesh"
    by (simp add: at_key_def assms(4))
  have ml1: "meshes_loop scene ptrs uninit (meshName # ms2) sB = Inr (Return sC)"
    by (simp add: am pl)
  have ml: "meshes_loop scene ptrs uninit (ms1 @ meshName # ms2) sA = Inr (Return sC)"
    unfolding meshes_loop_append by (simp add: assms(3) ml1 del: meshes_loop.simps)
  have nl: "nodes_loop scene ptrs uninit (ns1 @ (node, ms1 @ meshName # ms2) # ns2) ?st0 = Inr (Return sC)"
    unfolding nodes_loop_append by (simp add: assms(2) ml)
  have res: "rasterizeSetBuffers scene (ns1 @ (node, ms1 @ meshName # ms2) # ns2) uninit st = Inr sC"
    by (simp add: rasterizeSetBuffers_def assms(1) nl)
  from nodes_loop_frame [OF nl]
  have cells: "dev_primitives_cells sC = dev_primitives_cells st"
    and heap: "set heap \<subseteq> set (device_heap sC)"
    and nop: "PrimitivesBlock \<in> set (device_heap sC) \<longrightarrow> PrimitivesBlock \<in> set heap" by simp_all
  from copy_bufferViews_live [OF assms(1)]
  have cp: "snd ` set ptrs \<subseteq> set heap"
    and nop0: "PrimitivesBlock \<in> set heap \<longrightarrow> PrimitivesBlock \<in> set (device_heap st)" by simp_all
  from cp heap have live: "\<forall>kb \<in> set ptrs. snd kb \<in> set (device_heap sC)" by auto
  from nop nop0 have "PrimitivesBlock \<notin> set (device_heap sC) - set (device_heap st)" by blast
  with res cells live show ?thesis by blast
qed

lemma example_copy:
  "copy_bufferViews (example_scene ps) (bufferViews (example_scene ps)) ([], []) =
     Inr ([(''view'', BufferViewBlock ''view'')], [BufferViewBlock ''view''])"
  by (simp add: example_scene_def at_key_def)

lemma example_process:
  "process_primitive (example_scene ps) [(''view'', BufferViewBlock ''view'')] uninit ''mesh''
     (example_primitive_of ''acc'' m)
     \<lparr>totalNumPrimitives = 0, mesh2PrimitivesMap = [''mesh'' \<mapsto> []], dev_primitives_cells = None,
      device_heap = [BufferViewBlock ''view'']\<rparr>
   = Inr (Continue
       \<lparr>totalNumPrimitives = snd (switch_mode uninit m 3),
        mesh2PrimitivesMap = [''mesh'' \<mapsto> [example_info m (fst (switch_mode uninit m 3)) (snd (switch_mode uninit m 3))]],
        dev_primitives_cells = None,
        device_heap = [BufferViewBlock ''view'', IndexBlock, AttributeBlock ''POSITION'', VertexOutBlock]\<rparr>)"
  by (simp add: process_primitive_def example_primitive_of_def example_scene_def at_key_def Let_def
        load_material_def example_info_def)

theorem empty_indices_returns_early_witness:
  "indices (example_primitive_of [] TINYGLTF_MODE_TRIANGLES) = []
   \<and> rasterizeSetBuffers
        (example_scene [example_primitive_of ''acc'' TINYGLTF_MODE_TRIANGLES,
                        example_primitive_of [] TINYGLTF_MODE_TRIANGLES,
                        example_primitive_of ''acc'' TINYGLTF_MODE_TRIANGLES])
        ([] @ (''node'', [] @ ''mesh'' # []) # []) (Triangle, 0) initial_setup_state
       = Inr after_first_primitive
   \<and> totalNumPrimitives after_first_primitive = 1
   \<and> dev_primitives_cells after_first_primitive = dev_primitives_cells initial_setup_state
   \<and> dev_primitives_cells initial_setup_state = None
   \<and> BufferViewBlock ''view'' \<in> set (device_heap after_first_primitive)"
proof -
  let ?tri = "example_primitive_of ''acc'' TINYGLTF_MODE_TRIANGLES"
  let ?emp = "example_primitive_of [] TINYGLTF_MODE_TRIANGLES"
  let ?scene = "example_scene [?tri, ?emp, ?tri]"
  let ?ptrs = "[(''view'', BufferViewBlock ''view'')]"
  let ?heap = "[BufferViewBlock ''view'']"
  let ?mesh = "\<lparr>name = ''mesh'', primitives = [?tri, ?emp, ?tri]\<rparr>"
  let ?s0 = "initial_setup_state\<lparr>totalNumPrimitives := 0, device_heap := ?heap\<rparr>"
  have h1: "copy_bufferViews ?scene (bufferViews ?scene) ([], device_heap initial_setup_state) = Inr (?ptrs, ?heap)"
    using example_copy by (simp add: initial_setup_state_def)
  have h2: "nodes_loop ?scene ?ptrs (Triangle, 0) [] ?s0 = Inr (Continue ?s0)" by simp
  have h3: "meshes_loop ?scene ?ptrs (Triangle, 0) [] ?s0 = Inr (Continue ?s0)" by simp
  have h4: "meshes ?scene ''mesh'' = Some ?mesh" by (simp add: example_scene_def)
  have h5: "primitives ?mesh = [?tri] @ ?emp # [?tri]" by simp
  have h6: "primitives_loop ?scene ?ptrs (Triangle, 0) (name ?mesh) [?tri]
           (?s0\<lparr>mesh2PrimitivesMap :=
                 (if mesh2PrimitivesMap ?s0 (name ?mesh) = None
                  then (mesh2PrimitivesMap ?s0)(name ?mesh \<mapsto> []) else mesh2PrimitivesMap ?s0)\<rparr>)
           = Inr (Continue after_first_primitive)"
    using example_process [of "[?tri, ?emp, ?tri]" "(Triangle, 0)" TINYGLTF_MODE_TRIANGLES]
    by (simp add: initial_setup_state_def after_first_primitive_def c_div_def)
  have h7: "indices ?emp = []" by (simp add: example_primitive_of_def)
  from empty_indices_returns_early [OF h1 h2 h3 h4 h5 h6 h7, of "''node''" "[]" "[]"]
  show ?thesis
    by (simp add: h7) (simp add: after_first_primitive_def initial_setup_state_def)
qed

lemma process_primitive_error_mode:
  "(process_primitive scene ptrs uninit mn (p\<lparr>mode := m\<rparr>) st = Inl e)
     = (process_primitive scene ptrs uninit mn (p\<lparr>mode := m'\<rparr>) st = Inl e)"
  by (auto simp: process_primitive_def Let_def bind_err_def split: sum.splits prod.splits)

lemma process_primitive_recorded:
  assumes "process_primitive scene ptrs uninit mn p st = Inr (Continue st')"
  shows "\<exists>info. mesh2PrimitivesMap st' mn
                  = Some ((case mesh2PrimitivesMap st mn of None \<Rightarrow> [] | Some primitiveVector \<Rightarrow> primitiveVector) @ [info])
           \<and> info_primitiveMode info = mode p
           \<and> (info_primitiveType info, info_numPrimitives info) = switch_mode uninit (mode p) (info_numIndices info)
           \<and> totalNumPrimitives st' = totalNumPrimitives st + info_numPrimitives info"
  using assms
  by (auto simp: process_primitive_def Let_def bind_err_def split: sum.splits prod.splits if_splits)

text \<open>
  C7, as the code has it, for the line and point modes. The setup does not reject a
  primitive for its mode: it reports an error for the primitive exactly when it does for
  the same primitive with the mode TRIANGLES. When it succeeds, it records the primitive
  with the type Line or Point and \<open>numIndices / 2\<close>, \<open>numIndices + 1\<close> or \<open>numIndices\<close>
  primitives, and adds that number to the total. The assembly kernel then stores the
  vertex of the index position \<open>iid\<close> in the slot \<open>iid mod k\<close> of the primitive
  \<open>iid / k + offset\<close>, with k = 1 for points and k = 2 for lines, and sets its cull flag.
\<close>

theorem line_point_modes_not_rejected:
  assumes "mode p = TINYGLTF_MODE_LINE \<or> mode p = TINYGLTF_MODE_LINE_LOOP \<or> mode p = TINYGLTF_MODE_POINTS"
  shows "((process_primitive scene ptrs uninit mn p st = Inl e)
            = (process_primitive scene ptrs uninit mn (p\<lparr>mode := TINYGLTF_MODE_TRIANGLES\<rparr>) st = Inl e))
       \<and> (process_primitive scene ptrs uninit mn p st = Inr (Continue st') \<longrightarrow>
            (\<exists>info. mesh2PrimitivesMap st' mn
                      = Some ((case mesh2PrimitivesMap st mn of None \<Rightarrow> [] | Some primitiveVector \<Rightarrow> primitiveVector)
                              @ [info])
               \<and> info_primitiveMode info = mode p
               \<and> info_primitiveType info = (if mode p = TINYGLTF_MODE_POINTS then Point else Line)
               \<and> info_numPrimitives info
                   = (if mode p = TINYGLTF_MODE_LINE then c_div (info_numIndices info) 2
                      else if mode p = TINYGLTF_MODE_LINE_LOOP then info_numIndices info + 1
                      else info_numIndices info)
               \<and> totalNumPrimitives st' = totalNumPrimitives st + info_numPrimitives info))
       \<and> (PrimitiveDevBufPointers.primitiveType primitive = Point \<and> int iid < nIndices \<longrightarrow>
            primitiveAssembly nIndices b primitive iid P (int iid + b)
              = (P (int iid + b))
                  \<lparr>v := (v (P (int iid + b)))(0 := dev_verticesOut primitive (uint (dev_indices primitive (int iid)))),
                   cull := z3 (vertexNormal (dev_verticesOut primitive (uint (dev_indices primitive (int iid))))) < 0\<rparr>)
       \<and> (PrimitiveDevBufPointers.primitiveType primitive = Line \<and> int iid < nIndices \<longrightarrow>
            primitiveAssembly nIndices b primitive iid P (int iid div 2 + b)
              = (P (int iid div 2 + b))
                  \<lparr>v := (v (P (int iid div 2 + b)))
                          (iid mod 2 := dev_verticesOut primitive (uint (dev_indices primitive (int iid)))),
                   cull := z3 (vertexNormal (dev_verticesOut primitive (uint (dev_indices primitive (int iid))))) < 0\<rparr>)"
proof (intro conjI)
  have "p\<lparr>mode := mode p\<rparr> = p" by simp
  with process_primitive_error_mode [where p = p and m = "mode p" and m' = TINYGLTF_MODE_TRIANGLES
         and scene = scene and ptrs = ptrs and uninit = uninit and mn = mn and st = st and e = e]
  show "(process_primitive scene ptrs uninit mn p st = Inl e)
            = (process_primitive scene ptrs uninit mn (p\<lparr>mode := TINYGLTF_MODE_TRIANGLES\<rparr>) st = Inl e)"
    by simp
next
  show "process_primitive scene ptrs uninit mn p st = Inr (Continue st') \<longrightarrow>
            (\<exists>info. mesh2PrimitivesMap st' mn
                      = Some ((case mesh2PrimitivesMap st mn of None \<Rightarrow> [] | Some primitiveVector \<Rightarrow> primitiveVector)
                              @ [info])
               \<and> info_primitiveMode info = mode p
               \<and> info_primitiveType info = (if mode p = TINYGLTF_MODE_POINTS then Point else Line)
               \<and> info_numPrimitives info
                   = (if mode p = TINYGLTF_MODE_LINE then c_div (info_numIndices info) 2
                      else if mode p = TINYGLTF_MODE_LINE_LOOP then info_numIndices info + 1
                      else info_numIndices info)
               \<and> totalNumPrimitives st' = totalNumPrimitives st + info_numPrimitives info)"
  proof
    assume "process_primitive scene ptrs uninit mn p st = Inr (Continue st')"
    from process_primitive_recorded [OF this] obtain info where
      i: "mesh2PrimitivesMap st' mn
            = Some ((case mesh2PrimitivesMap st mn of None \<Rightarrow> [] | Some primitiveVector \<Rightarrow> primitiveVector) @ [info])"
         "info_primitiveMode info = mode p"
         "(info_primitiveType info, info_numPrimitives info) = switch_mode uninit (mode p) (info_numIndices info)"
         "totalNumPrimitives st' = totalNumPrimitives st + info_numPrimitives info"
      by blast
    from i(3) assms have "info_primitiveType info = (if mode p = TINYGLTF_MODE_POINTS then Point else Line)"
      "info_numPrimitives info
                   = (if mode p = TINYGLTF_MODE_LINE then c_div (info_numIndices info) 2
                      else if mode p = TINYGLTF_MODE_LINE_LOOP then info_numIndices info + 1
                      else info_numIndices info)"
      by auto
    with i(1,2,4) show "\<exists>info. mesh2PrimitivesMap st' mn
                      = Some ((case mesh2PrimitivesMap st mn of None \<Rightarrow> [] | Some primitiveVector \<Rightarrow> primitiveVector)
                              @ [info])
               \<and> info_primitiveMode info = mode p
               \<and> info_primitiveType info = (if mode p = TINYGLTF_MODE_POINTS then Point else Line)
               \<and> info_numPrimitives info
                   = (if mode p = TINYGLTF_MODE_LINE then c_div (info_numIndices info) 2
                      else if mode p = TINYGLTF_MODE_LINE_LOOP then info_numIndices info + 1
                      else info_numIndices info)
               \<and> totalNumPrimitives st' = totalNumPrimitives st + info_numPrimitives info"
      by blast
  qed
qed (simp_all add: primitiveAssembly_def Let_def nat_mod_distrib)

theorem line_point_modes_not_rejected_witness:
  "mode (example_primitive_of ''acc'' TINYGLTF_MODE_POINTS) = TINYGLTF_MODE_POINTS
   \<and> process_primitive (example_scene []) [(''view'', BufferViewBlock ''view'')] (Triangle, 0) ''mesh''
        (example_primitive_of ''acc'' TINYGLTF_MODE_POINTS)
        \<lparr>totalNumPrimitives = 0, mesh2PrimitivesMap = [''mesh'' \<mapsto> []], dev_primitives_cells = None,
         device_heap = [BufferViewBlock ''view'']\<rparr>
       = Inr (Continue
           \<lparr>totalNumPrimitives = 3,
            mesh2PrimitivesMap = [''mesh'' \<mapsto> [example_info TINYGLTF_MODE_POINTS Point 3]],
            dev_primitives_cells = None,
            device_heap = [BufferViewBlock ''view'', IndexBlock, AttributeBlock ''POSITION'', VertexOutBlock]\<rparr>)
   \<and> PrimitiveDevBufPointers.primitiveType example_points_mesh = Point \<and> int 1 < 3
   \<and> primitiveAssembly 3 0 example_points_mesh 1 unassembled (int 1 + 0)
       = (unassembled (int 1 + 0))\<lparr>v := (v (unassembled (int 1 + 0)))(0 := example_vertex (- 1)), cull := True\<rparr>"
proof -
  let ?p = "example_primitive_of ''acc'' TINYGLTF_MODE_POINTS"
  let ?st = "\<lparr>totalNumPrimitives = 0, mesh2PrimitivesMap = [''mesh'' \<mapsto> []], dev_primitives_cells = None,
         device_heap = [BufferViewBlock ''view'']\<rparr>"
  let ?st' = "\<lparr>totalNumPrimitives = 3,
            mesh2PrimitivesMap = [''mesh'' \<mapsto> [example_info TINYGLTF_MODE_POINTS Point 3]],
            dev_primitives_cells = None,
            device_heap = [BufferViewBlock ''view'', IndexBlock, AttributeBlock ''POSITION'', VertexOutBlock]\<rparr>"
  have m: "mode ?p = TINYGLTF_MODE_POINTS" by (simp add: example_primitive_of_def)
  have pr: "process_primitive (example_scene []) [(''view'', BufferViewBlock ''view'')] (Triangle, 0) ''mesh'' ?p ?st
              = Inr (Continue ?st')"
    using example_process [of "[]" "(Triangle, 0)" TINYGLTF_MODE_POINTS] by simp
  have ty: "PrimitiveDevBufPointers.primitiveType example_points_mesh = Point"
    by (simp add: example_points_mesh_def)
  have vx: "dev_verticesOut example_points_mesh (uint (dev_indices example_points_mesh (int 1))) = example_vertex (- 1)"
    by (simp add: example_points_mesh_def example_mesh_def)
  have "mode ?p = TINYGLTF_MODE_LINE \<or> mode ?p = TINYGLTF_MODE_LINE_LOOP \<or> mode ?p = TINYGLTF_MODE_POINTS"
    using m by simp
  from line_point_modes_not_rejected [OF this, where primitive = example_points_mesh and iid = 1
         and nIndices = 3 and b = 0 and P = unassembled]
  have "primitiveAssembly 3 0 example_points_mesh 1 unassembled (int 1 + 0)
       = (unassembled (int 1 + 0))\<lparr>v := (v (unassembled (int 1 + 0)))(0 := example_vertex (- 1)), cull := True\<rparr>"
    using ty vx by (simp add: example_vertex_def)
  with m pr ty show ?thesis by simp
qed

text \<open>
  C7 as stated fails for a mesh primitive of three indices with the mode POINTS: the
  setup returns without error, having recorded three primitives of the type Point, and
  the assembly kernel builds three primitives of one vertex each, the second one flagged
  for culling, without any error either.
\<close>

theorem unsupported_mode_counterexample:
  "rasterizeSetBuffers (example_scene [example_primitive_of ''acc'' TINYGLTF_MODE_POINTS])
     [(''node'', [''mesh''])] (Triangle, 0) initial_setup_state = Inr after_points_setup
   \<and> cull (run_threads (primitiveAssembly 3 0 example_points_mesh) [0, 1, 2] unassembled 1)
   \<and> v (run_threads (primitiveAssembly 3 0 example_points_mesh) [0, 1, 2] unassembled 1) 0 = example_vertex (- 1)"
proof -
  let ?p = "example_primitive_of ''acc'' TINYGLTF_MODE_POINTS"
  let ?s0 = "initial_setup_state\<lparr>totalNumPrimitives := 0, device_heap := [BufferViewBlock ''view'']\<rparr>"
  have nl: "nodes_loop (example_scene [?p]) [(''view'', BufferViewBlock ''view'')] (Triangle, 0)
              [(''node'', [''mesh''])] ?s0
            = Inr (Continue
               \<lparr>totalNumPrimitives = 3,
                mesh2PrimitivesMap = [''mesh'' \<mapsto> [example_info TINYGLTF_MODE_POINTS Point 3]],
                dev_primitives_cells = None,
                device_heap = [BufferViewBlock ''view'', IndexBlock, AttributeBlock ''POSITION'', VertexOutBlock]\<rparr>)"
    using example_process [of "[?p]" "(Triangle, 0)" TINYGLTF_MODE_POINTS]
    by (simp add: initial_setup_state_def) (simp add: example_scene_def at_key_def)
  have a: "rasterizeSetBuffers (example_scene [?p]) [(''node'', [''mesh''])] (Triangle, 0) initial_setup_state
             = Inr after_points_setup"
    using example_copy [of "[?p]"] nl
    by (simp add: rasterizeSetBuffers_def initial_setup_state_def after_points_setup_def free_bufferViews_def)
  have b: "cull (run_threads (primitiveAssembly 3 0 example_points_mesh) [0, 1, 2] unassembled 1)"
    "v (run_threads (primitiveAssembly 3 0 example_points_mesh) [0, 1, 2] unassembled 1) 0 = example_vertex (- 1)"
    by (simp_all add: run_threads_def primitiveAssembly_def Let_def example_points_mesh_def example_mesh_def
          unassembled_def example_primitive_def example_vertex_def)
  from a b show ?thesis by blast
qed
end
